theory Spec2Isabelle
  imports Main
begin

section \<open>The autoscaler trait controller\<close>

text \<open>
  A shallow embedding of \<^verbatim>\<open>pkg/controller/v1alpha1/autoscaler/types.go\<close>: the method
  \<^verbatim>\<open>(*AutoscalerReconciler).Reconcile\<close>, its constants, and the data it reads and writes.
  Calls into the API server and into the OAM runtime library are modelled by a record of
  their outcomes in one invocation (\<open>Env\<close>) and by the objects they read and write
  (\<open>Cluster\<close>); every call with an effect outside the process is logged in order.
\<close>

subsection \<open>Constants of the package\<close>

definition CPUType :: string where "CPUType = ''cpu''"
definition MemoryType :: string where "MemoryType = ''memory''"
definition StorageType :: string where "StorageType = ''storage''"
definition EphemeralStorageType :: string where "EphemeralStorageType = ''ephemeral-storage''"
definition CronType :: string where "CronType = ''cron''"

definition SpecWarningTargetWorkloadNotSet :: string where
  "SpecWarningTargetWorkloadNotSet = ''Spec.targetWorkload is not set''"
definition SpecWarningStartAtTimeFormat :: string where
  "SpecWarningStartAtTimeFormat =
     ''startAt is not in the right format, which should be like `12:01`''"
definition SpecWarningStartAtTimeRequired :: string where
  "SpecWarningStartAtTimeRequired = ''spec.triggers.condition.startAt: Required value''"
definition SpecWarningDurationTimeRequired :: string where
  "SpecWarningDurationTimeRequired = ''spec.triggers.condition.duration: Required value''"
definition SpecWarningReplicasRequired :: string where
  "SpecWarningReplicasRequired = ''spec.triggers.condition.replicas: Required value''"
definition SpecWarningDurationTimeNotInRightFormat :: string where
  "SpecWarningDurationTimeNotInRightFormat =
     ''spec.triggers.condition.duration: not in the right format''"
definition SpecWarningSumOfStartAndDurationMoreThan24Hour :: string where
  "SpecWarningSumOfStartAndDurationMoreThan24Hour =
     ''the sum of the start hour and the duration hour has to be less than 24 hours.''"

text \<open>\<^verbatim>\<open>reconcile.Result\<close>; \<open>RequeueAfter\<close> is a \<^verbatim>\<open>time.Duration\<close>, in nanoseconds.\<close>

record Result =
  Requeue :: bool
  RequeueAfter :: int

definition Second :: int where "Second = 1000000000"

definition ReconcileWaitResult :: Result where
  "ReconcileWaitResult = \<lparr>Requeue = False, RequeueAfter = 30 * Second\<rparr>"

text \<open>
  Modelled from the spec: \<^verbatim>\<open>util.ReconcileWaitResult\<close> of the OAM runtime library, which
  the failure paths after the trait fetch return, is not declared in this package; the
  specification calls it the fixed 30 second requeue.
\<close>

definition util_ReconcileWaitResult :: Result where
  "util_ReconcileWaitResult = \<lparr>Requeue = False, RequeueAfter = 30 * Second\<rparr>"

text \<open>\<^verbatim>\<open>ctrl.Result{}\<close>, the zero value.\<close>

definition Result_zero :: Result where
  "Result_zero = \<lparr>Requeue = False, RequeueAfter = 0\<rparr>"

subsection \<open>Objects\<close>

text \<open>\<^verbatim>\<open>metav1.OwnerReference\<close>; the two flags are \<^verbatim>\<open>*bool\<close>, \<open>None\<close> is \<^verbatim>\<open>nil\<close>.\<close>

record OwnerReference =
  or_APIVersion :: string
  or_Kind :: string
  or_UID :: string
  or_Name :: string
  or_Controller :: "bool option"
  or_BlockOwnerDeletion :: "bool option"

text \<open>The fields of an \<^verbatim>\<open>unstructured.Unstructured\<close> that \<^verbatim>\<open>Reconcile\<close> reads or writes.\<close>

record Resource =
  res_APIVersion :: string
  res_Kind :: string
  res_Name :: string
  res_OwnerReferences :: "OwnerReference list"

record TargetWorkload =
  tw_APIVersion :: string
  tw_Kind :: string
  tw_Name :: string

text \<open>
  Messages and errors. The texts of \<^verbatim>\<open>util.ErrLocateAppConfig\<close>,
  \<^verbatim>\<open>util.ErrFetchChildResources\<close>, \<^verbatim>\<open>util.ErrUpdateStatus\<close> and
  \<^verbatim>\<open>common.ErrLocatingWorkload\<close> are declared outside this package and stay symbolic.
\<close>

datatype msg =
    Text string
  | ErrLocateAppConfig
  | ErrFetchChildResources
  | ErrLocatingWorkload
  | ErrUpdateStatus

datatype error =
    NotFound
  | Failure string
  | Errorf msg
  | Wrap error msg

text \<open>
  \<^verbatim>\<open>cpv1alpha1.Condition\<close>: \<^verbatim>\<open>ReconcileError(err)\<close> is the condition of type
  \<^verbatim>\<open>Synced\<close> that carries the error; any other condition is kept by type and text.
\<close>

datatype Condition =
    ReconcileError error
  | OtherCondition string string

fun conditionType :: "Condition \<Rightarrow> string" where
  "conditionType (ReconcileError e) = ''Synced''"
| "conditionType (OtherCondition t m) = t"

text \<open>One scaling trigger: its type tag and the fields of the cron condition.\<close>

record Trigger =
  tr_Type :: string
  tr_StartAt :: "string option"
  tr_Duration :: "string option"
  tr_Replicas :: "int option"

text \<open>\<^verbatim>\<open>v1alpha1.Autoscaler\<close>: type and object metadata, the spec, the status conditions.\<close>

record Autoscaler =
  as_APIVersion :: string
  as_Kind :: string
  as_Name :: string
  as_UID :: string
  as_TargetWorkload :: TargetWorkload
  as_Triggers :: "Trigger list"
  as_Conditions :: "Condition list"

record Request =
  req_Namespace :: string
  req_Name :: string

subsection \<open>The world outside the process\<close>

text \<open>
  The objects in the API server that one invocation can reach: the autoscalers by
  namespaced name, the workload the trait refers to, and the child resources that
  \<^verbatim>\<open>util.FetchWorkloadChildResources\<close> lists for it, in the order it lists them.
\<close>

record Cluster =
  autoscalers :: "string \<times> string \<Rightarrow> Autoscaler option"
  workload :: Resource
  children :: "Resource list"

text \<open>
  The outcome of each call that can fail, for one invocation: \<^verbatim>\<open>r.Get\<close> failing with an
  error other than not-found, \<^verbatim>\<open>util.LocateParentAppConfig\<close> (an error, no parent, or the
  parent's name), the two fetches, the \<open>i\<close>-th \<^verbatim>\<open>r.Patch\<close> of the invocation, the status
  patch inside \<^verbatim>\<open>util.PatchCondition\<close>, and \<^verbatim>\<open>r.scaleByKEDA\<close>, whose body is in another
  file of the package and which \<^verbatim>\<open>Reconcile\<close> uses only through the error it returns.
\<close>

record Env =
  getError :: "string option"
  locateParent :: "error + string option"
  fetchWorkloadError :: "error option"
  fetchChildResourcesError :: "error option"
  patchError :: "nat \<Rightarrow> error option"
  statusPatchError :: "error option"
  scaleByKEDA :: "Autoscaler \<Rightarrow> string \<Rightarrow> error option"

datatype EventTarget = TheTrait | ParentAppConfig string

text \<open>The calls with an effect outside the process, as logged.\<close>

datatype effect =
    Event EventTarget msg error
  | ConditionPatch Condition
  | Patched Resource
  | PatchRejected Resource
  | ScaleByKEDA Autoscaler string

datatype ret = Returned Result "error option" | Panicked

text \<open>
  What one invocation leaves behind: what it returned (or that it panicked), the calls it
  made in order, the objects in the API server afterwards, and the local variable
  \<^verbatim>\<open>scaler\<close> as it was at the end (\<open>None\<close> if the trait was never fetched).
\<close>

record Run =
  run_ret :: ret
  run_effects :: "effect list"
  run_cluster :: Cluster
  run_scaler :: "Autoscaler option"

subsection \<open>Library calls\<close>

definition Get :: "Env \<Rightarrow> Cluster \<Rightarrow> Request \<Rightarrow> error + Autoscaler" where
  "Get env cl req =
     (case getError env of
        Some e \<Rightarrow> Inl (Failure e)
      | None \<Rightarrow>
         (case autoscalers cl (req_Namespace req, req_Name req) of
            None \<Rightarrow> Inl NotFound
          | Some scaler \<Rightarrow> Inr scaler))"

definition IgnoreNotFound :: "error \<Rightarrow> error option" where
  "IgnoreNotFound err = (if err = NotFound then None else Some err)"

text \<open>
  \<^verbatim>\<open>ConditionedStatus.SetConditions\<close>: a condition of the same type is replaced in place,
  a condition of a new type is appended.
\<close>

definition SetConditions :: "Condition list \<Rightarrow> Condition \<Rightarrow> Condition list" where
  "SetConditions cs c =
     (if list_ex (\<lambda>c'. conditionType c' = conditionType c) cs
      then map (\<lambda>c'. if conditionType c' = conditionType c then c else c') cs
      else cs @ [c])"

text \<open>
  \<^verbatim>\<open>util.PatchCondition\<close>: sets the condition on the object in memory and sends the
  difference as a patch of the status subresource; the stored spec is not written. Its
  error is the status patch's error wrapped, or \<^verbatim>\<open>nil\<close>.
\<close>

definition PatchCondition ::
  "Env \<Rightarrow> Cluster \<Rightarrow> Request \<Rightarrow> Autoscaler \<Rightarrow> Condition \<Rightarrow> error option \<times> Cluster" where
  "PatchCondition env cl req scaler c =
     (case statusPatchError env of
        Some e \<Rightarrow> (Some (Wrap e ErrUpdateStatus), cl)
      | None \<Rightarrow>
         (None,
          cl\<lparr>autoscalers := (autoscalers cl)
               ((req_Namespace req, req_Name req) :=
                  map_option
                    (\<lambda>stored. stored\<lparr>as_Conditions := SetConditions (as_Conditions scaler) c\<rparr>)
                    (autoscalers cl (req_Namespace req, req_Name req)))\<rparr>))"

subsection \<open>Reconcile\<close>

text \<open>The owner reference built at lines 127 to 134.\<close>

definition ownerReferenceOf :: "Autoscaler \<Rightarrow> OwnerReference" where
  "ownerReferenceOf scaler =
     \<lparr>or_APIVersion = as_APIVersion scaler,
      or_Kind = as_Kind scaler,
      or_UID = as_UID scaler,
      or_Name = as_Name scaler,
      or_Controller = Some True,
      or_BlockOwnerDeletion = Some True\<rparr>"

text \<open>
  The inner loop, lines 150 to 154: \<^verbatim>\<open>if *r.Controller { refs[i].Controller = false }\<close>.
  Dereferencing a \<^verbatim>\<open>nil\<close> flag panics: the result is \<open>None\<close>.
\<close>

fun demoteControllers :: "OwnerReference list \<Rightarrow> OwnerReference list option" where
  "demoteControllers [] = Some []"
| "demoteControllers (r # refs) =
     (case or_Controller r of
        None \<Rightarrow> None
      | Some c \<Rightarrow>
         (case demoteControllers refs of
            None \<Rightarrow> None
          | Some refs' \<Rightarrow>
             Some ((if c then r\<lparr>or_Controller := Some False\<rparr> else r) # refs')))"

text \<open>Lines 149 to 156: the object as it is sent to \<^verbatim>\<open>r.Patch\<close>.\<close>

definition setOwner :: "OwnerReference \<Rightarrow> Resource \<Rightarrow> Resource option" where
  "setOwner ownerReference res =
     (case demoteControllers (res_OwnerReferences res) of
        None \<Rightarrow> None
      | Some refs \<Rightarrow> Some (res\<lparr>res_OwnerReferences := refs @ [ownerReference]\<rparr>))"

definition targetOf :: "Resource \<Rightarrow> TargetWorkload" where
  "targetOf res =
     \<lparr>tw_APIVersion = res_APIVersion res, tw_Kind = res_Kind res, tw_Name = res_Name res\<rparr>"

definition scalableKind :: "Resource \<Rightarrow> bool" where
  "scalableKind res \<longleftrightarrow> res_Kind res = ''Deployment'' \<or> res_Kind res = ''StatefulSet''"

datatype loop_exit = Completed | PatchFailed error | NilDereference

text \<open>
  The state at the end of the loop of lines 147 to 171: how it ended, the resources as
  the API server holds them (patched up to the point reached, untouched after it), the
  local \<^verbatim>\<open>scaler\<close> and \<^verbatim>\<open>targetWorkloadSetFlag\<close>, and the calls made.
\<close>

record loop_result =
  lr_exit :: loop_exit
  lr_resources :: "Resource list"
  lr_scaler :: Autoscaler
  lr_flag :: bool
  lr_effects :: "effect list"

fun adoptLoop ::
  "(nat \<Rightarrow> error option) \<Rightarrow> OwnerReference \<Rightarrow> Resource list \<Rightarrow> Autoscaler \<Rightarrow> bool
     \<Rightarrow> loop_result" where
  "adoptLoop perr ownerReference [] scaler targetWorkloadSetFlag =
     \<lparr>lr_exit = Completed, lr_resources = [], lr_scaler = scaler,
      lr_flag = targetWorkloadSetFlag, lr_effects = []\<rparr>"
| "adoptLoop perr ownerReference (res # rest) scaler targetWorkloadSetFlag =
     (case setOwner ownerReference res of
        None \<Rightarrow>
          \<lparr>lr_exit = NilDereference, lr_resources = res # rest, lr_scaler = scaler,
           lr_flag = targetWorkloadSetFlag, lr_effects = []\<rparr>
      | Some res' \<Rightarrow>
         (case perr 0 of
            Some err \<Rightarrow>
              \<lparr>lr_exit = PatchFailed err, lr_resources = res # rest, lr_scaler = scaler,
               lr_flag = targetWorkloadSetFlag, lr_effects = [PatchRejected res']\<rparr>
          | None \<Rightarrow>
             (let hit = (\<not> targetWorkloadSetFlag \<and> scalableKind res');
                  scaler' = (if hit then scaler\<lparr>as_TargetWorkload := targetOf res'\<rparr>
                             else scaler);
                  flag' = (if hit then True else targetWorkloadSetFlag);
                  lr = adoptLoop (\<lambda>i. perr (Suc i)) ownerReference rest scaler' flag'
              in lr\<lparr>lr_resources := res' # lr_resources lr,
                    lr_effects := Patched res' # lr_effects lr\<rparr>)))"

text \<open>
  The resources of the loop written back: the last one is the workload
  (\<^verbatim>\<open>resources = append(resources, workload)\<close>), the others are the children.
\<close>

definition storeResources :: "Cluster \<Rightarrow> Resource list \<Rightarrow> Cluster" where
  "storeResources cl rs =
     (case rev rs of
        [] \<Rightarrow> cl
      | w # cs \<Rightarrow> cl\<lparr>workload := w, children := rev cs\<rparr>)"

text \<open>
  The recurring \<^verbatim>\<open>return util.ReconcileWaitResult, util.PatchCondition(.., ReconcileError(err))\<close>,
  after the calls \<open>effs\<close> already made.
\<close>

definition returnPatchCondition ::
  "Env \<Rightarrow> Cluster \<Rightarrow> Request \<Rightarrow> Autoscaler \<Rightarrow> effect list \<Rightarrow> error \<Rightarrow> Run" where
  "returnPatchCondition env cl req scaler effs err =
     (case PatchCondition env cl req scaler (ReconcileError err) of
        (perr, cl') \<Rightarrow>
          \<lparr>run_ret = Returned util_ReconcileWaitResult perr,
           run_effects = effs @ [ConditionPatch (ReconcileError err)],
           run_cluster = cl',
           run_scaler =
             Some (scaler\<lparr>as_Conditions :=
                     SetConditions (as_Conditions scaler) (ReconcileError err)\<rparr>)\<rparr>)"

definition Reconcile :: "Env \<Rightarrow> Cluster \<Rightarrow> Request \<Rightarrow> Run" where
  "Reconcile env cl req =
     (case Get env cl req of
        Inl err \<Rightarrow>
          \<lparr>run_ret = Returned ReconcileWaitResult (IgnoreNotFound err),
           run_effects = [], run_cluster = cl, run_scaler = None\<rparr>
      | Inr scaler \<Rightarrow>
         (case locateParent env of
            Inl err \<Rightarrow> returnPatchCondition env cl req scaler [] (Errorf ErrLocateAppConfig)
          | Inr parent \<Rightarrow>
             (let eventObj = (case parent of None \<Rightarrow> TheTrait | Some p \<Rightarrow> ParentAppConfig p)
              in case fetchWorkloadError env of
                   Some err \<Rightarrow>
                     returnPatchCondition env cl req scaler
                       [Event TheTrait ErrLocatingWorkload err] (Wrap err ErrLocatingWorkload)
                 | None \<Rightarrow>
                    (case fetchChildResourcesError env of
                       Some err \<Rightarrow>
                         returnPatchCondition env cl req scaler
                           [Event eventObj ErrFetchChildResources err]
                           (Errorf ErrFetchChildResources)
                     | None \<Rightarrow>
                        (let resources = children cl @ [workload cl];
                             lr = adoptLoop (patchError env) (ownerReferenceOf scaler)
                                    resources scaler False;
                             cl' = storeResources cl (lr_resources lr)
                         in case lr_exit lr of
                              NilDereference \<Rightarrow>
                                \<lparr>run_ret = Panicked, run_effects = lr_effects lr,
                                 run_cluster = cl', run_scaler = Some (lr_scaler lr)\<rparr>
                            | PatchFailed err \<Rightarrow>
                                returnPatchCondition env cl' req (lr_scaler lr) (lr_effects lr)
                                  (Wrap err
                                     (Text ''Failed to set ownerReference for child resource''))
                            | Completed \<Rightarrow>
                               (let scaler' =
                                      (if length resources = 1 \<and> \<not> lr_flag lr
                                       then (lr_scaler lr)
                                              \<lparr>as_TargetWorkload := targetOf (workload cl')\<rparr>
                                       else lr_scaler lr);
                                    namespace = req_Namespace req;
                                    effs = lr_effects lr @ [ScaleByKEDA scaler' namespace]
                                in case scaleByKEDA env scaler' namespace of
                                     Some err \<Rightarrow>
                                       \<lparr>run_ret = Returned ReconcileWaitResult (Some err),
                                        run_effects = effs, run_cluster = cl',
                                        run_scaler = Some scaler'\<rparr>
                                   | None \<Rightarrow>
                                       \<lparr>run_ret = Returned Result_zero None,
                                        run_effects = effs, run_cluster = cl',
                                        run_scaler = Some scaler'\<rparr>))))))"

subsection \<open>The cron trigger checks\<close>

text \<open>
  Modelled from the spec: the cron checks of the trigger validator (section 4.5 and
  invariant 4 of the data model). Their code is reached through \<^verbatim>\<open>scaleByKEDA\<close>, in
  another file of the package; \<^verbatim>\<open>types.go\<close> declares only the warning texts. A field is
  required, \<open>startAt\<close> must read as \<^verbatim>\<open>HH:MM\<close>, \<open>duration\<close> as a count of hours, and
  when both read, the start hour plus the duration must stay below 24. Every violated
  check adds its warning.
\<close>

definition digit :: "char \<Rightarrow> nat option" where
  "digit c =
     map_of [(CHR ''0'', 0), (CHR ''1'', 1), (CHR ''2'', 2), (CHR ''3'', 3), (CHR ''4'', 4),
             (CHR ''5'', 5), (CHR ''6'', 6), (CHR ''7'', 7), (CHR ''8'', 8), (CHR ''9'', 9)] c"

fun digits :: "string \<Rightarrow> nat \<Rightarrow> nat option" where
  "digits [] acc = Some acc"
| "digits (c # cs) acc =
     (case digit c of None \<Rightarrow> None | Some d \<Rightarrow> digits cs (10 * acc + d))"

text \<open>Modelled from the spec: \<open>startAt\<close> in the form \<^verbatim>\<open>HH:MM\<close>, as hour and minute.\<close>

definition parseStartAt :: "string \<Rightarrow> (nat \<times> nat) option" where
  "parseStartAt s =
     (if length s = 5 \<and> s ! 2 = CHR '':''
      then (case (digits (take 2 s) 0, digits (drop 3 s) 0) of
              (Some h, Some m) \<Rightarrow> if h < 24 \<and> m < 60 then Some (h, m) else None
            | _ \<Rightarrow> None)
      else None)"

text \<open>Modelled from the spec: \<open>duration\<close> as a count of hours, a decimal numeral.\<close>

definition parseDuration :: "string \<Rightarrow> nat option" where
  "parseDuration s = (if s = [] then None else digits s 0)"

text \<open>Modelled from the spec: the warnings of one cron trigger, in the order of the checks.\<close>

definition validateCron :: "Trigger \<Rightarrow> string list" where
  "validateCron t =
     (case tr_StartAt t of
        None \<Rightarrow> [SpecWarningStartAtTimeRequired]
      | Some s \<Rightarrow>
         (case parseStartAt s of None \<Rightarrow> [SpecWarningStartAtTimeFormat] | Some hm \<Rightarrow> []))
     @ (case tr_Duration t of
          None \<Rightarrow> [SpecWarningDurationTimeRequired]
        | Some d \<Rightarrow>
           (case parseDuration d of
              None \<Rightarrow> [SpecWarningDurationTimeNotInRightFormat]
            | Some n \<Rightarrow> []))
     @ (case tr_Replicas t of None \<Rightarrow> [SpecWarningReplicasRequired] | Some n \<Rightarrow> [])
     @ (case (Option.bind (tr_StartAt t) parseStartAt, Option.bind (tr_Duration t) parseDuration) of
          (Some (startHour, startMinute), Some durationHour) \<Rightarrow>
            if startHour + durationHour < 24 then []
            else [SpecWarningSumOfStartAndDurationMoreThan24Hour]
        | _ \<Rightarrow> [])"

text \<open>
  Modelled from the spec: the cron triggers handed on to the backend object are those
  without a warning (section 4.5: a trigger failing any cron check is excluded from
  delegation).
\<close>

definition delegatedCronTriggers :: "Autoscaler \<Rightarrow> Trigger list" where
  "delegatedCronTriggers scaler =
     filter (\<lambda>t. tr_Type t = CronType \<and> validateCron t = []) (as_Triggers scaler)"

text \<open>
  Modelled from the spec: the error of \<^verbatim>\<open>scaleByKEDA\<close>. Warnings never escalate to a
  reconcile failure (section 4.5); the one error of the synchronizer is a failed write of
  the backend object (section 4.6).
\<close>

definition scaleByKEDA_spec :: "error option \<Rightarrow> Autoscaler \<Rightarrow> string \<Rightarrow> error option" where
  "scaleByKEDA_spec backendWriteError scaler namespace = backendWriteError"

subsection \<open>Vocabulary of the properties\<close>

text \<open>An owner reference with its controller flag cleared, everything else kept.\<close>

definition demoted :: "OwnerReference \<Rightarrow> OwnerReference" where
  "demoted r = r\<lparr>or_Controller := Some False\<rparr>"

text \<open>A resource after adoption: every reference demoted, the trait's reference appended.\<close>

definition adopted :: "OwnerReference \<Rightarrow> Resource \<Rightarrow> Resource" where
  "adopted ownerReference res =
     res\<lparr>res_OwnerReferences := map demoted (res_OwnerReferences res) @ [ownerReference]\<rparr>"

text \<open>Every owner reference of the resource has a controller flag (none is \<^verbatim>\<open>nil\<close>).\<close>

definition flagsSet :: "Resource \<Rightarrow> bool" where
  "flagsSet res \<longleftrightarrow> list_all (\<lambda>r. or_Controller r \<noteq> None) (res_OwnerReferences res)"

text \<open>The resources of the loop, in its order: the children, then the workload.\<close>

definition resourcesOf :: "Cluster \<Rightarrow> Resource list" where
  "resourcesOf cl = children cl @ [workload cl]"

text \<open>The trait as it stands after a loop that ran to its end, lines 163 to 180.\<close>

definition resolved :: "Cluster \<Rightarrow> Autoscaler \<Rightarrow> Autoscaler" where
  "resolved cl scaler =
     (case find scalableKind (resourcesOf cl) of
        Some res \<Rightarrow> scaler\<lparr>as_TargetWorkload := targetOf res\<rparr>
      | None \<Rightarrow>
          if children cl = [] then scaler\<lparr>as_TargetWorkload := targetOf (workload cl)\<rparr>
          else scaler)"

subsection \<open>Sample objects\<close>

definition ex_scaler :: Autoscaler where
  "ex_scaler =
     \<lparr>as_APIVersion = ''standard.oam.dev/v1alpha1'', as_Kind = ''Autoscaler'',
      as_Name = ''web-scaler'', as_UID = ''uid-1'',
      as_TargetWorkload = \<lparr>tw_APIVersion = [], tw_Kind = [], tw_Name = []\<rparr>,
      as_Triggers = [], as_Conditions = []\<rparr>"

definition ex_req :: Request where
  "ex_req = \<lparr>req_Namespace = ''default'', req_Name = ''web-scaler''\<rparr>"

text \<open>An invocation in which no call fails.\<close>

definition ex_env :: Env where
  "ex_env =
     \<lparr>getError = None, locateParent = Inr None, fetchWorkloadError = None,
      fetchChildResourcesError = None, patchError = (\<lambda>i. None), statusPatchError = None,
      scaleByKEDA = (\<lambda>scaler namespace. None)\<rparr>"

definition ex_cluster :: "Resource \<Rightarrow> Resource list \<Rightarrow> Cluster" where
  "ex_cluster w cs =
     \<lparr>autoscalers = (\<lambda>k. if k = (''default'', ''web-scaler'') then Some ex_scaler else None),
      workload = w, children = cs\<rparr>"

definition ex_resource :: "string \<Rightarrow> string \<Rightarrow> OwnerReference list \<Rightarrow> Resource" where
  "ex_resource kind name refs =
     \<lparr>res_APIVersion = ''apps/v1'', res_Kind = kind, res_Name = name,
      res_OwnerReferences = refs\<rparr>"

definition ex_ref :: "string \<Rightarrow> bool option \<Rightarrow> OwnerReference" where
  "ex_ref name c =
     \<lparr>or_APIVersion = ''core.oam.dev/v1alpha2'', or_Kind = ''ApplicationConfiguration'',
      or_UID = ''uid-0'', or_Name = name, or_Controller = c, or_BlockOwnerDeletion = Some True\<rparr>"

definition ex_web :: Resource where
  "ex_web = ex_resource ''Deployment'' ''web'' [ex_ref ''app'' (Some True)]"

definition ex_svc :: Resource where
  "ex_svc = ex_resource ''Service'' ''web-svc'' []"

definition ex_db :: Resource where
  "ex_db = ex_resource ''StatefulSet'' ''db'' [ex_ref ''app'' (Some False)]"

definition ex_cron :: "string option \<Rightarrow> string option \<Rightarrow> int option \<Rightarrow> Trigger" where
  "ex_cron startAt duration replicas =
     \<lparr>tr_Type = CronType, tr_StartAt = startAt, tr_Duration = duration,
      tr_Replicas = replicas\<rparr>"

definition ex_cron_scaler :: Autoscaler where
  "ex_cron_scaler =
     ex_scaler\<lparr>as_Triggers :=
       [ex_cron (Some ''12:01'') (Some ''13'') (Some 5),
        ex_cron (Some ''09:00'') (Some ''2'') (Some 5)]\<rparr>"

definition ex_cron_cluster :: Cluster where
  "ex_cron_cluster =
     \<lparr>autoscalers =
        (\<lambda>k. if k = (''default'', ''web-scaler'') then Some ex_cron_scaler else None),
      workload = ex_web, children = [ex_svc]\<rparr>"

lemmas Reconcile_unfold =
  Reconcile_def Get_def IgnoreNotFound_def PatchCondition_def returnPatchCondition_def
  setOwner_def targetOf_def scalableKind_def storeResources_def ownerReferenceOf_def
  SetConditions_def Let_def ReconcileWaitResult_def util_ReconcileWaitResult_def
  Result_zero_def Second_def resourcesOf_def

lemmas ex_defs =
  ex_scaler_def ex_req_def ex_env_def ex_cluster_def ex_resource_def ex_ref_def
  ex_web_def ex_svc_def ex_db_def

section \<open>Properties\<close>

subsection \<open>The adoption loop\<close>

lemma demoteControllers_eq:
  "demoteControllers refs =
     (if list_all (\<lambda>r. or_Controller r \<noteq> None) refs then Some (map demoted refs) else None)"
  by (induction refs) (auto simp: demoted_def split: option.splits)

lemma setOwner_eq:
  "setOwner ownerReference res =
     (if flagsSet res then Some (adopted ownerReference res) else None)"
  by (simp add: setOwner_def demoteControllers_eq adopted_def flagsSet_def)

lemma targetOf_adopted [simp]: "targetOf (adopted ownerReference res) = targetOf res"
  by (simp add: targetOf_def adopted_def)

lemma scalableKind_adopted [simp]:
  "scalableKind (adopted ownerReference res) = scalableKind res"
  by (simp add: scalableKind_def adopted_def)

lemma flagsSet_adopted:
  "or_Controller ownerReference \<noteq> None \<Longrightarrow> flagsSet (adopted ownerReference res)"
  by (auto simp: flagsSet_def adopted_def demoted_def list_all_iff)

lemma length_adoptLoop [simp]:
  "length (lr_resources (adoptLoop perr ownerReference rs scaler flag)) = length rs"
  by (induction rs arbitrary: perr scaler flag)
     (auto simp: Let_def split: option.splits)

text \<open>The loop runs to its end exactly when no patch fails and no flag is \<^verbatim>\<open>nil\<close>.\<close>

lemma adoptLoop_Completed_iff:
  "lr_exit (adoptLoop perr ownerReference rs scaler flag) = Completed \<longleftrightarrow>
     (\<forall>i < length rs. perr i = None) \<and> list_all flagsSet rs"
proof (induction rs arbitrary: perr scaler flag)
  case Nil
  then show ?case by simp
next
  case (Cons res rest)
  show ?case
    by (auto simp: setOwner_eq Let_def Cons.IH less_Suc_eq_0_disj split: option.splits)
qed

lemma adoptLoop_Completed:
  assumes "lr_exit (adoptLoop perr ownerReference rs scaler flag) = Completed"
  shows "lr_resources (adoptLoop perr ownerReference rs scaler flag) =
           map (adopted ownerReference) rs"
    and "lr_effects (adoptLoop perr ownerReference rs scaler flag) =
           map (\<lambda>res. Patched (adopted ownerReference res)) rs"
    and "lr_flag (adoptLoop perr ownerReference rs scaler flag) =
           (flag \<or> list_ex scalableKind rs)"
    and "lr_scaler (adoptLoop perr ownerReference rs scaler flag) =
           (if flag then scaler
            else case find scalableKind rs of
                   None \<Rightarrow> scaler
                 | Some res \<Rightarrow> scaler\<lparr>as_TargetWorkload := targetOf res\<rparr>)"
  using assms
proof (induction rs arbitrary: perr scaler flag)
  case Nil
  { case 1 show ?case by simp }
  { case 2 show ?case by simp }
  { case 3 show ?case by simp }
  { case 4 show ?case by simp }
next
  case (Cons res rest)
  { case 1 then show ?case using Cons.IH(1)
      by (auto simp: setOwner_eq Let_def split: option.splits if_splits) }
  { case 2 then show ?case using Cons.IH(2)
      by (auto simp: setOwner_eq Let_def split: option.splits if_splits) }
  { case 3 then show ?case using Cons.IH(3)
      by (auto simp: setOwner_eq Let_def split: option.splits if_splits) }
  { case 4 then show ?case using Cons.IH(4)
      by (auto simp: setOwner_eq Let_def split: option.splits if_splits) }
qed

text \<open>The loop when the \<open>k\<close>-th patch is the first to fail.\<close>

lemma adoptLoop_PatchFailed:
  assumes "k < length rs" and "perr k = Some e" and "\<forall>j < k. perr j = None"
      and "list_all flagsSet (take (Suc k) rs)"
  shows "lr_exit (adoptLoop perr ownerReference rs scaler flag) = PatchFailed e"
    and "lr_resources (adoptLoop perr ownerReference rs scaler flag) =
           map (adopted ownerReference) (take k rs) @ drop k rs"
    and "lr_effects (adoptLoop perr ownerReference rs scaler flag) =
           map (\<lambda>res. Patched (adopted ownerReference res)) (take k rs)
             @ [PatchRejected (adopted ownerReference (rs ! k))]"
  using assms
proof (induction rs arbitrary: perr k scaler flag)
  case Nil
  { case 1 then show ?case by simp }
  { case 2 then show ?case by simp }
  { case 3 then show ?case by simp }
next
  case (Cons res rest)
  have step: "k = Suc k' \<Longrightarrow> k < length (res # rest) \<Longrightarrow> perr k = Some e \<Longrightarrow>
      \<forall>j < k. perr j = None \<Longrightarrow> list_all flagsSet (take (Suc k) (res # rest)) \<Longrightarrow>
      k' < length rest \<and> perr (Suc k') = Some e \<and> (\<forall>j < k'. perr (Suc j) = None) \<and>
      list_all flagsSet (take (Suc k') rest) \<and> flagsSet res \<and> perr 0 = None"
    for k k' and perr :: "nat \<Rightarrow> error option"
    by auto
  { case 1 then show ?case
    proof (cases k)
      case 0 with 1 show ?thesis by (simp add: setOwner_eq)
    next
      case (Suc k')
      from step [OF Suc 1] Cons.IH(1) [of k' "\<lambda>i. perr (Suc i)"] show ?thesis
        by (simp add: setOwner_eq Let_def)
    qed }
  { case 2 then show ?case
    proof (cases k)
      case 0 with 2 show ?thesis by (simp add: setOwner_eq)
    next
      case (Suc k')
      from step [OF Suc 2] Cons.IH(2) [of k' "\<lambda>i. perr (Suc i)"] Suc show ?thesis
        by (simp add: setOwner_eq Let_def)
    qed }
  { case 3 then show ?case
    proof (cases k)
      case 0 with 3 show ?thesis by (simp add: setOwner_eq)
    next
      case (Suc k')
      from step [OF Suc 3] Cons.IH(3) [of k' "\<lambda>i. perr (Suc i)"] Suc show ?thesis
        by (simp add: setOwner_eq Let_def)
    qed }
qed

lemma storeResources_snoc:
  "storeResources cl (cs @ [w]) = cl\<lparr>workload := w, children := cs\<rparr>"
  by (simp add: storeResources_def)

subsection \<open>The paths of Reconcile\<close>

lemma Result_distinct [simp]:
  "Result_zero \<noteq> ReconcileWaitResult" "Result_zero \<noteq> util_ReconcileWaitResult"
  "ReconcileWaitResult \<noteq> Result_zero" "util_ReconcileWaitResult \<noteq> Result_zero"
  by (simp_all add: Result_zero_def ReconcileWaitResult_def util_ReconcileWaitResult_def Second_def)

lemma run_ret_returnPatchCondition [simp]:
  "run_ret (returnPatchCondition env cl req scaler effs err) =
     Returned util_ReconcileWaitResult
       (case statusPatchError env of None \<Rightarrow> None | Some e \<Rightarrow> Some (Wrap e ErrUpdateStatus))"
  by (simp add: returnPatchCondition_def PatchCondition_def split: option.splits)

lemma run_effects_returnPatchCondition [simp]:
  "run_effects (returnPatchCondition env cl req scaler effs err) =
     effs @ [ConditionPatch (ReconcileError err)]"
  by (simp add: returnPatchCondition_def split: prod.splits)

text \<open>The run when the four stages before the loop succeed.\<close>

lemma Reconcile_loop:
  assumes "Get env cl req = Inr scaler" and "locateParent env = Inr p"
      and "fetchWorkloadError env = None" and "fetchChildResourcesError env = None"
  shows "Reconcile env cl req =
     (let lr = adoptLoop (patchError env) (ownerReferenceOf scaler) (resourcesOf cl) scaler False;
          cl' = storeResources cl (lr_resources lr)
      in case lr_exit lr of
           NilDereference \<Rightarrow>
             \<lparr>run_ret = Panicked, run_effects = lr_effects lr,
              run_cluster = cl', run_scaler = Some (lr_scaler lr)\<rparr>
         | PatchFailed err \<Rightarrow>
             returnPatchCondition env cl' req (lr_scaler lr) (lr_effects lr)
               (Wrap err (Text ''Failed to set ownerReference for child resource''))
         | Completed \<Rightarrow>
            (let scaler' =
                   (if length (resourcesOf cl) = 1 \<and> \<not> lr_flag lr
                    then (lr_scaler lr)\<lparr>as_TargetWorkload := targetOf (workload cl')\<rparr>
                    else lr_scaler lr);
                 effs = lr_effects lr @ [ScaleByKEDA scaler' (req_Namespace req)]
             in case scaleByKEDA env scaler' (req_Namespace req) of
                  Some err \<Rightarrow>
                    \<lparr>run_ret = Returned ReconcileWaitResult (Some err),
                     run_effects = effs, run_cluster = cl', run_scaler = Some scaler'\<rparr>
                | None \<Rightarrow>
                    \<lparr>run_ret = Returned Result_zero None,
                     run_effects = effs, run_cluster = cl', run_scaler = Some scaler'\<rparr>))"
  by (simp only: Reconcile_def resourcesOf_def Let_def assms sum.case option.case)


lemma find_None_list_ex: "(find P xs = None) = (\<not> list_ex P xs)"
  by (auto simp: find_None_iff list_ex_iff)

lemma Reconcile_Completed:
  assumes "Get env cl req = Inr scaler" and "locateParent env = Inr p"
      and "fetchWorkloadError env = None" and "fetchChildResourcesError env = None"
      and "\<forall>i < length (resourcesOf cl). patchError env i = None"
      and "list_all flagsSet (resourcesOf cl)"
  shows "Reconcile env cl req =
     \<lparr>run_ret =
        (case scaleByKEDA env (resolved cl scaler) (req_Namespace req) of
           Some err \<Rightarrow> Returned ReconcileWaitResult (Some err)
         | None \<Rightarrow> Returned Result_zero None),
      run_effects =
        map (\<lambda>res. Patched (adopted (ownerReferenceOf scaler) res)) (resourcesOf cl)
          @ [ScaleByKEDA (resolved cl scaler) (req_Namespace req)],
      run_cluster =
        cl\<lparr>workload := adopted (ownerReferenceOf scaler) (workload cl),
           children := map (adopted (ownerReferenceOf scaler)) (children cl)\<rparr>,
      run_scaler = Some (resolved cl scaler)\<rparr>"
proof -
  let ?lr = "adoptLoop (patchError env) (ownerReferenceOf scaler) (resourcesOf cl) scaler False"
  have c: "lr_exit ?lr = Completed"
    using assms(5,6) by (simp add: adoptLoop_Completed_iff)
  note lr = adoptLoop_Completed [OF c]
  have st: "storeResources cl (lr_resources ?lr) =
      cl\<lparr>workload := adopted (ownerReferenceOf scaler) (workload cl),
         children := map (adopted (ownerReferenceOf scaler)) (children cl)\<rparr>"
    unfolding lr(1) by (simp add: resourcesOf_def storeResources_snoc)
  have sc: "(if length (resourcesOf cl) = 1 \<and> \<not> lr_flag ?lr
        then (lr_scaler ?lr)\<lparr>as_TargetWorkload := targetOf (workload (storeResources cl (lr_resources ?lr)))\<rparr>
        else lr_scaler ?lr) = resolved cl scaler"
    unfolding st lr(3) lr(4) resolved_def
    by (cases "children cl")
       (auto simp: resourcesOf_def find_None_list_ex split: option.splits)
  show ?thesis
    unfolding Reconcile_loop [OF assms(1-4)] Let_def sc c
    by (simp add: st lr(2) split: option.splits)
qed

lemma Reconcile_success_cases:
  assumes "run_ret (Reconcile env cl req) = Returned Result_zero None"
  obtains scaler p where "Get env cl req = Inr scaler" and "locateParent env = Inr p"
      and "fetchWorkloadError env = None" and "fetchChildResourcesError env = None"
      and "\<forall>i < length (resourcesOf cl). patchError env i = None"
      and "list_all flagsSet (resourcesOf cl)"
      and "scaleByKEDA env (resolved cl scaler) (req_Namespace req) = None"
proof -
  from assms obtain scaler where g: "Get env cl req = Inr scaler"
    by (cases "Get env cl req") (auto simp: Reconcile_def)
  from assms g obtain p where l: "locateParent env = Inr p"
    by (cases "locateParent env") (auto simp: Reconcile_def)
  from assms g l have w: "fetchWorkloadError env = None"
    by (cases "fetchWorkloadError env") (auto simp: Reconcile_def Let_def)
  from assms g l w have c: "fetchChildResourcesError env = None"
    by (cases "fetchChildResourcesError env") (auto simp: Reconcile_def Let_def)
  let ?lr = "adoptLoop (patchError env) (ownerReferenceOf scaler) (resourcesOf cl) scaler False"
  from assms have e: "lr_exit ?lr = Completed"
    unfolding Reconcile_loop [OF g l w c] Let_def
    by (cases "lr_exit ?lr") (auto split: option.splits)
  then have a: "\<forall>i < length (resourcesOf cl). patchError env i = None"
    "list_all flagsSet (resourcesOf cl)"
    by (simp_all add: adoptLoop_Completed_iff)
  from assms have "scaleByKEDA env (resolved cl scaler) (req_Namespace req) = None"
    unfolding Reconcile_Completed [OF g l w c a]
    by (auto split: option.splits)
  with g l w c a show thesis by (rule that)
qed

subsection \<open>Facts about the vocabulary\<close>

lemma Get_Inr_iff:
  "Get env cl req = Inr scaler \<longleftrightarrow>
     getError env = None \<and> autoscalers cl (req_Namespace req, req_Name req) = Some scaler"
  by (auto simp: Get_def split: option.splits)

lemma resourcesOf_update [simp]:
  "resourcesOf (cl\<lparr>workload := w, children := cs\<rparr>) = cs @ [w]"
  by (simp add: resourcesOf_def)

lemma or_Controller_demoted [simp]: "or_Controller (demoted r) = Some False"
  by (simp add: demoted_def)

lemma demoted_idem: "or_Controller r = Some False \<Longrightarrow> demoted r = r"
  by (simp add: demoted_def)

lemma filter_controller_adopted:
  "or_Controller ownerReference = Some True \<Longrightarrow>
   filter (\<lambda>r. or_Controller r = Some True) (res_OwnerReferences (adopted ownerReference res))
     = [ownerReference]"
  by (simp add: adopted_def filter_empty_conv)

lemma find_map_adopted:
  "find scalableKind (map (adopted ownerReference) rs)
     = map_option (adopted ownerReference) (find scalableKind rs)"
  by (induction rs) auto

lemma resolved_adopted:
  "resolved (cl\<lparr>workload := adopted ownerReference (workload cl),
               children := map (adopted ownerReference) (children cl)\<rparr>) scaler
     = resolved cl scaler"
proof -
  have "find scalableKind (map (adopted ownerReference) (children cl) @ [adopted ownerReference (workload cl)])
      = map_option (adopted ownerReference) (find scalableKind (resourcesOf cl))"
    using find_map_adopted [of ownerReference "resourcesOf cl"] by (simp add: resourcesOf_def)
  then show ?thesis
    by (cases "find scalableKind (resourcesOf cl)") (simp_all add: resolved_def)
qed

lemma as_Conditions_adoptLoop [simp]:
  "as_Conditions (lr_scaler (adoptLoop perr ownerReference rs scaler flag)) = as_Conditions scaler"
  by (induction rs arbitrary: perr scaler flag) (auto simp: Let_def split: option.splits)

lemma resourcesOf_storeResources:
  "rs \<noteq> [] \<Longrightarrow> resourcesOf (storeResources cl rs) = rs"
  by (cases rs rule: rev_cases) (simp_all add: storeResources_def resourcesOf_def)

lemma autoscalers_storeResources [simp]:
  "autoscalers (storeResources cl rs) = autoscalers cl"
  by (simp add: storeResources_def split: list.splits)

lemma SetConditions_member: "c \<in> set (SetConditions cs c)"
  by (auto simp: SetConditions_def list_ex_iff)

lemma run_cluster_returnPatchCondition:
  "run_cluster (returnPatchCondition env cl req scaler effs err) =
     (case statusPatchError env of
        Some e \<Rightarrow> cl
      | None \<Rightarrow>
         cl\<lparr>autoscalers := (autoscalers cl)
               ((req_Namespace req, req_Name req) :=
                  map_option
                    (\<lambda>stored. stored\<lparr>as_Conditions :=
                       SetConditions (as_Conditions scaler) (ReconcileError err)\<rparr>)
                    (autoscalers cl (req_Namespace req, req_Name req)))\<rparr>)"
  by (simp add: returnPatchCondition_def PatchCondition_def split: option.splits)

lemma resourcesOf_returnPatchCondition [simp]:
  "resourcesOf (run_cluster (returnPatchCondition env cl req scaler effs err)) = resourcesOf cl"
  by (simp add: run_cluster_returnPatchCondition resourcesOf_def split: option.splits)

text \<open>The run when the \<open>k\<close>-th patch is the first call to fail.\<close>

lemma Reconcile_PatchFailed:
  assumes "Get env cl req = Inr scaler" and "locateParent env = Inr p"
      and "fetchWorkloadError env = None" and "fetchChildResourcesError env = None"
      and "k < length (resourcesOf cl)" and "patchError env k = Some e"
      and "\<forall>j < k. patchError env j = None"
      and "list_all flagsSet (take (Suc k) (resourcesOf cl))"
  shows "run_ret (Reconcile env cl req) =
           Returned util_ReconcileWaitResult
             (case statusPatchError env of
                None \<Rightarrow> None | Some e' \<Rightarrow> Some (Wrap e' ErrUpdateStatus))"
    and "run_effects (Reconcile env cl req) =
           map (\<lambda>res. Patched (adopted (ownerReferenceOf scaler) res)) (take k (resourcesOf cl))
             @ [PatchRejected (adopted (ownerReferenceOf scaler) (resourcesOf cl ! k)),
                ConditionPatch (ReconcileError
                  (Wrap e (Text ''Failed to set ownerReference for child resource'')))]"
    and "resourcesOf (run_cluster (Reconcile env cl req)) =
           map (adopted (ownerReferenceOf scaler)) (take k (resourcesOf cl))
             @ drop k (resourcesOf cl)"
    and "statusPatchError env = None \<Longrightarrow>
           \<exists>stored. autoscalers (run_cluster (Reconcile env cl req))
                      (req_Namespace req, req_Name req) = Some stored
             \<and> as_TargetWorkload stored = as_TargetWorkload scaler
             \<and> ReconcileError (Wrap e (Text ''Failed to set ownerReference for child resource''))
                 \<in> set (as_Conditions stored)"
proof -
  let ?lr = "adoptLoop (patchError env) (ownerReferenceOf scaler) (resourcesOf cl) scaler False"
  note pf = adoptLoop_PatchFailed [OF assms(5-8), of "ownerReferenceOf scaler" scaler False]
  have R: "Reconcile env cl req =
      returnPatchCondition env (storeResources cl (lr_resources ?lr)) req (lr_scaler ?lr)
        (lr_effects ?lr) (Wrap e (Text ''Failed to set ownerReference for child resource''))"
    unfolding Reconcile_loop [OF assms(1-4)] Let_def pf(1) by simp
  have ne: "lr_resources ?lr \<noteq> []"
    using assms(5) length_adoptLoop [of "patchError env" "ownerReferenceOf scaler" "resourcesOf cl" scaler False]
    by (metis length_0_conv less_nat_zero_code)
  show "run_ret (Reconcile env cl req) =
           Returned util_ReconcileWaitResult
             (case statusPatchError env of
                None \<Rightarrow> None | Some e' \<Rightarrow> Some (Wrap e' ErrUpdateStatus))"
    unfolding R by simp
  show "run_effects (Reconcile env cl req) =
           map (\<lambda>res. Patched (adopted (ownerReferenceOf scaler) res)) (take k (resourcesOf cl))
             @ [PatchRejected (adopted (ownerReferenceOf scaler) (resourcesOf cl ! k)),
                ConditionPatch (ReconcileError
                  (Wrap e (Text ''Failed to set ownerReference for child resource'')))]"
    unfolding R by (simp add: pf(3))
  show "resourcesOf (run_cluster (Reconcile env cl req)) =
           map (adopted (ownerReferenceOf scaler)) (take k (resourcesOf cl))
             @ drop k (resourcesOf cl)"
    unfolding R using ne by (simp add: resourcesOf_storeResources pf(2))
  show "\<exists>stored. autoscalers (run_cluster (Reconcile env cl req))
                      (req_Namespace req, req_Name req) = Some stored
             \<and> as_TargetWorkload stored = as_TargetWorkload scaler
             \<and> ReconcileError (Wrap e (Text ''Failed to set ownerReference for child resource''))
                 \<in> set (as_Conditions stored)"
    if "statusPatchError env = None"
    unfolding R using that assms(1)
    by (simp add: run_cluster_returnPatchCondition Get_Inr_iff SetConditions_member)
qed

subsection \<open>The cron checks\<close>

lemma parse_samples:
  "parseStartAt ''12:01'' = Some (12, 1)" "parseStartAt ''09:00'' = Some (9, 0)"
  "parseStartAt ''noon'' = None" "parseDuration ''13'' = Some 13" "parseDuration ''2'' = Some 2"
  "parseDuration ''two'' = None"
  by (simp_all add: parseStartAt_def parseDuration_def digit_def)

lemma validateCron_Nil_iff:
  "validateCron t = [] \<longleftrightarrow>
     (\<exists>s d n h m dh. tr_StartAt t = Some s \<and> tr_Duration t = Some d \<and> tr_Replicas t = Some n
        \<and> parseStartAt s = Some (h, m) \<and> parseDuration d = Some dh \<and> h + dh < 24)"
  by (cases "tr_StartAt t"; cases "tr_Duration t"; cases "tr_Replicas t")
     (auto simp: validateCron_def split: option.splits)

section \<open>The claims\<close>

subsection \<open>Ownership after a successful reconcile\<close>

text \<open>
  C1. After a successful reconcile, that is a return of \<^verbatim>\<open>ctrl.Result{}\<close> with a
  \<^verbatim>\<open>nil\<close> error, every child resource and the workload carry the owner references
  they had before, in the same order and each with \<open>controller = false\<close>, followed
  by one new reference that names the trait (its apiVersion, kind, UID and name) with
  \<open>controller = true\<close> and \<open>blockOwnerDeletion = true\<close>. That new reference is the only
  one with \<open>controller = true\<close>; a reference that had \<open>controller = true\<close> is still
  there, demoted; a reference that had \<open>controller = false\<close> is unchanged; none is
  deleted.
\<close>

theorem Reconcile_adopts_resources:
  assumes "run_ret (Reconcile env cl req) = Returned Result_zero None"
  shows "\<exists>scaler. autoscalers cl (req_Namespace req, req_Name req) = Some scaler \<and>
     length (resourcesOf (run_cluster (Reconcile env cl req))) = length (resourcesOf cl) \<and>
     (\<forall>i < length (resourcesOf cl).
        res_OwnerReferences (resourcesOf (run_cluster (Reconcile env cl req)) ! i)
          = map demoted (res_OwnerReferences (resourcesOf cl ! i))
              @ [\<lparr>or_APIVersion = as_APIVersion scaler, or_Kind = as_Kind scaler,
                  or_UID = as_UID scaler, or_Name = as_Name scaler,
                  or_Controller = Some True, or_BlockOwnerDeletion = Some True\<rparr>]
        \<and> filter (\<lambda>r. or_Controller r = Some True)
            (res_OwnerReferences (resourcesOf (run_cluster (Reconcile env cl req)) ! i))
          = [\<lparr>or_APIVersion = as_APIVersion scaler, or_Kind = as_Kind scaler,
              or_UID = as_UID scaler, or_Name = as_Name scaler,
              or_Controller = Some True, or_BlockOwnerDeletion = Some True\<rparr>]
        \<and> (\<forall>r \<in> set (res_OwnerReferences (resourcesOf cl ! i)).
              (or_Controller r = Some True \<or> demoted r = r)
              \<and> demoted r \<in> set (res_OwnerReferences
                                    (resourcesOf (run_cluster (Reconcile env cl req)) ! i))))"
proof -
  from assms obtain scaler p where s: "Get env cl req = Inr scaler" "locateParent env = Inr p"
      "fetchWorkloadError env = None" "fetchChildResourcesError env = None"
      "\<forall>i < length (resourcesOf cl). patchError env i = None"
      "list_all flagsSet (resourcesOf cl)"
    by (rule Reconcile_success_cases)
  let ?o = "ownerReferenceOf scaler"
  have rc: "resourcesOf (run_cluster (Reconcile env cl req)) = map (adopted ?o) (resourcesOf cl)"
    unfolding Reconcile_Completed [OF s] by (simp add: resourcesOf_def)
  have o: "or_Controller ?o = Some True" by (simp add: ownerReferenceOf_def)
  have fl: "or_Controller r = Some True \<or> demoted r = r"
    if "i < length (resourcesOf cl)" "r \<in> set (res_OwnerReferences (resourcesOf cl ! i))" for i r
  proof -
    from s(6) that(1) have "flagsSet (resourcesOf cl ! i)" by (simp add: list_all_length)
    with that(2) have "or_Controller r \<noteq> None" by (auto simp: flagsSet_def list_all_iff)
    then obtain c where "or_Controller r = Some c" by auto
    then show ?thesis by (cases c) (simp_all add: demoted_idem)
  qed
  have "autoscalers cl (req_Namespace req, req_Name req) = Some scaler"
    using s(1) by (simp add: Get_Inr_iff)
  moreover have "length (resourcesOf (run_cluster (Reconcile env cl req))) = length (resourcesOf cl)"
    by (simp add: rc)
  moreover have "\<forall>i < length (resourcesOf cl).
        res_OwnerReferences (resourcesOf (run_cluster (Reconcile env cl req)) ! i)
          = map demoted (res_OwnerReferences (resourcesOf cl ! i)) @ [?o]
        \<and> filter (\<lambda>r. or_Controller r = Some True)
            (res_OwnerReferences (resourcesOf (run_cluster (Reconcile env cl req)) ! i)) = [?o]
        \<and> (\<forall>r \<in> set (res_OwnerReferences (resourcesOf cl ! i)).
              (or_Controller r = Some True \<or> demoted r = r)
              \<and> demoted r \<in> set (res_OwnerReferences
                                    (resourcesOf (run_cluster (Reconcile env cl req)) ! i)))"
    using fl by (simp add: rc filter_controller_adopted [OF o]) (simp add: adopted_def)
  ultimately show ?thesis
    unfolding ownerReferenceOf_def by blast
qed

theorem Reconcile_adopts_resources_witness:
  "run_ret (Reconcile ex_env (ex_cluster ex_web [ex_svc]) ex_req) = Returned Result_zero None
   \<and> res_OwnerReferences (resourcesOf (run_cluster
         (Reconcile ex_env (ex_cluster ex_web [ex_svc]) ex_req)) ! 1)
       = [ex_ref ''app'' (Some False), ownerReferenceOf ex_scaler]
   \<and> filter (\<lambda>r. or_Controller r = Some True)
        (res_OwnerReferences (resourcesOf (run_cluster
           (Reconcile ex_env (ex_cluster ex_web [ex_svc]) ex_req)) ! 1))
       = [ownerReferenceOf ex_scaler]"
proof -
  have h: "run_ret (Reconcile ex_env (ex_cluster ex_web [ex_svc]) ex_req)
             = Returned Result_zero None"
    by (simp add: Reconcile_unfold ex_defs)
  have k: "autoscalers (ex_cluster ex_web [ex_svc]) (req_Namespace ex_req, req_Name ex_req)
             = Some ex_scaler"
    by (simp add: ex_cluster_def ex_req_def)
  have l: "(1::nat) < length (resourcesOf (ex_cluster ex_web [ex_svc]))"
    by (simp add: resourcesOf_def ex_cluster_def)
  have r: "res_OwnerReferences (resourcesOf (ex_cluster ex_web [ex_svc]) ! 1)
             = [ex_ref ''app'' (Some True)]"
    by (simp add: resourcesOf_def ex_cluster_def ex_web_def ex_resource_def)
  from Reconcile_adopts_resources [OF h] k l r h show ?thesis
    by (auto simp: demoted_def ex_ref_def ownerReferenceOf_def)
qed

text \<open>
  C2, as amended. Reconcile is not idempotent on owner references. A second run on the
  objects left by a successful first run, with the same outcomes of the calls, succeeds
  again; on every resource it demotes the trait's reference that the first run appended
  and appends the trait's reference once more, so every list grows by one entry per run.
  The stored trait is unchanged by both runs, and the second run hands
  \<^verbatim>\<open>scaleByKEDA\<close> the same trait and namespace as the first.
\<close>

theorem Reconcile_second_run_appends_again:
  assumes "run_ret (Reconcile env cl req) = Returned Result_zero None"
  shows "run_ret (Reconcile env (run_cluster (Reconcile env cl req)) req)
           = Returned Result_zero None
         \<and> autoscalers (run_cluster (Reconcile env (run_cluster (Reconcile env cl req)) req))
             = autoscalers cl
         \<and> run_scaler (Reconcile env (run_cluster (Reconcile env cl req)) req)
             = run_scaler (Reconcile env cl req)
         \<and> last (run_effects (Reconcile env (run_cluster (Reconcile env cl req)) req))
             = last (run_effects (Reconcile env cl req))
         \<and> (\<exists>scaler. autoscalers cl (req_Namespace req, req_Name req) = Some scaler
              \<and> resourcesOf (run_cluster (Reconcile env cl req))
                  = map (adopted (ownerReferenceOf scaler)) (resourcesOf cl)
              \<and> resourcesOf (run_cluster (Reconcile env (run_cluster (Reconcile env cl req)) req))
                  = map (adopted (ownerReferenceOf scaler))
                      (resourcesOf (run_cluster (Reconcile env cl req))))"
proof -
  from assms obtain scaler p where s: "Get env cl req = Inr scaler" "locateParent env = Inr p"
      "fetchWorkloadError env = None" "fetchChildResourcesError env = None"
      "\<forall>i < length (resourcesOf cl). patchError env i = None"
      "list_all flagsSet (resourcesOf cl)"
    and k: "scaleByKEDA env (resolved cl scaler) (req_Namespace req) = None"
    by (rule Reconcile_success_cases)
  let ?o = "ownerReferenceOf scaler"
  let ?cl1 = "cl\<lparr>workload := adopted ?o (workload cl), children := map (adopted ?o) (children cl)\<rparr>"
  have c1: "run_cluster (Reconcile env cl req) = ?cl1"
    unfolding Reconcile_Completed [OF s] by simp
  have r1: "resourcesOf ?cl1 = map (adopted ?o) (resourcesOf cl)"
    by (simp add: resourcesOf_def)
  have g: "Get env ?cl1 req = Inr scaler"
    using s(1) by (simp add: Get_Inr_iff)
  have pe: "\<forall>i < length (resourcesOf ?cl1). patchError env i = None"
    using s(5) by (simp add: resourcesOf_def)
  have "or_Controller ?o \<noteq> None" by (simp add: ownerReferenceOf_def)
  then have fl: "list_all flagsSet (resourcesOf ?cl1)"
    unfolding r1 by (simp add: list_all_iff flagsSet_adopted)
  note R2 = Reconcile_Completed [OF g s(2) s(3) s(4) pe fl]
  have rs: "resolved ?cl1 scaler = resolved cl scaler"
    by (rule resolved_adopted)
  have a: "autoscalers cl (req_Namespace req, req_Name req) = Some scaler"
    using s(1) by (simp add: Get_Inr_iff)
  show ?thesis
    unfolding c1 R2 rs
    unfolding Reconcile_Completed [OF s]
    using k a by (simp add: resourcesOf_def)
qed

theorem Reconcile_second_run_appends_again_witness:
  "run_ret (Reconcile ex_env (ex_cluster ex_web []) ex_req) = Returned Result_zero None
   \<and> run_ret (Reconcile ex_env (run_cluster (Reconcile ex_env (ex_cluster ex_web []) ex_req))
        ex_req) = Returned Result_zero None
   \<and> resourcesOf (run_cluster (Reconcile ex_env (ex_cluster ex_web []) ex_req))
       = [adopted (ownerReferenceOf ex_scaler) ex_web]
   \<and> resourcesOf (run_cluster
        (Reconcile ex_env (run_cluster (Reconcile ex_env (ex_cluster ex_web []) ex_req)) ex_req))
       = [adopted (ownerReferenceOf ex_scaler) (adopted (ownerReferenceOf ex_scaler) ex_web)]"
proof -
  have h: "run_ret (Reconcile ex_env (ex_cluster ex_web []) ex_req) = Returned Result_zero None"
    by (simp add: Reconcile_unfold ex_defs)
  have k: "autoscalers (ex_cluster ex_web []) (req_Namespace ex_req, req_Name ex_req)
             = Some ex_scaler"
    by (simp add: ex_cluster_def ex_req_def)
  have r: "resourcesOf (ex_cluster ex_web []) = [ex_web]"
    by (simp add: resourcesOf_def ex_cluster_def)
  from Reconcile_second_run_appends_again [OF h] h k show ?thesis
    by (auto simp: r)
qed

text \<open>
  C2 as stated fails: on a Deployment with one controller reference and no children, the
  owner references the second run computes and stores differ from those the first run
  left.
\<close>

theorem Reconcile_second_run_changes_references:
  "run_ret (Reconcile ex_env (ex_cluster ex_web []) ex_req) = Returned Result_zero None
   \<and> res_OwnerReferences (workload (run_cluster (Reconcile ex_env (ex_cluster ex_web []) ex_req)))
       = [ex_ref ''app'' (Some False), ownerReferenceOf ex_scaler]
   \<and> res_OwnerReferences (workload (run_cluster
        (Reconcile ex_env (run_cluster (Reconcile ex_env (ex_cluster ex_web []) ex_req)) ex_req)))
       = [ex_ref ''app'' (Some False), (ownerReferenceOf ex_scaler)\<lparr>or_Controller := Some False\<rparr>,
          ownerReferenceOf ex_scaler]
   \<and> res_OwnerReferences (workload (run_cluster
        (Reconcile ex_env (run_cluster (Reconcile ex_env (ex_cluster ex_web []) ex_req)) ex_req)))
       \<noteq> res_OwnerReferences
            (workload (run_cluster (Reconcile ex_env (ex_cluster ex_web []) ex_req)))"
  by (simp add: Reconcile_unfold ex_defs)

subsection \<open>Target resolution\<close>

text \<open>
  C3, as amended. After every successful reconcile the trait object in memory carries
  the resolved target, and that object is the one handed to \<^verbatim>\<open>scaleByKEDA\<close>: the
  (apiVersion, kind, name) of the first scalable resource in loop order when there is
  one, and that of the workload when the workload is the only resource and is not
  scalable. \<^verbatim>\<open>Reconcile\<close> itself does not write the trait back: its calls with an
  outside effect are the ownership patches followed by \<^verbatim>\<open>scaleByKEDA\<close>, none of them
  a write of the trait, and the stored traits as it leaves them are the same as before.
\<close>

theorem Reconcile_target_kept_in_memory:
  assumes "run_ret (Reconcile env cl req) = Returned Result_zero None"
  shows "autoscalers (run_cluster (Reconcile env cl req)) = autoscalers cl
         \<and> (\<exists>scaler. autoscalers cl (req_Namespace req, req_Name req) = Some scaler
              \<and> run_scaler (Reconcile env cl req) = Some (resolved cl scaler)
              \<and> run_effects (Reconcile env cl req)
                  = map (\<lambda>res. Patched (adopted (ownerReferenceOf scaler) res)) (resourcesOf cl)
                      @ [ScaleByKEDA (resolved cl scaler) (req_Namespace req)]
              \<and> (\<forall>i. i < length (resourcesOf cl) \<and> scalableKind (resourcesOf cl ! i)
                       \<and> (\<forall>j < i. \<not> scalableKind (resourcesOf cl ! j)) \<longrightarrow>
                     resolved cl scaler
                       = scaler\<lparr>as_TargetWorkload := targetOf (resourcesOf cl ! i)\<rparr>)
              \<and> (children cl = [] \<and> \<not> scalableKind (workload cl) \<longrightarrow>
                     resolved cl scaler
                       = scaler\<lparr>as_TargetWorkload := targetOf (workload cl)\<rparr>))"
proof -
  from assms obtain scaler p where s: "Get env cl req = Inr scaler" "locateParent env = Inr p"
      "fetchWorkloadError env = None" "fetchChildResourcesError env = None"
      "\<forall>i < length (resourcesOf cl). patchError env i = None"
      "list_all flagsSet (resourcesOf cl)"
    by (rule Reconcile_success_cases)
  have first: "resolved cl scaler = scaler\<lparr>as_TargetWorkload := targetOf (resourcesOf cl ! i)\<rparr>"
    if "i < length (resourcesOf cl) \<and> scalableKind (resourcesOf cl ! i)
          \<and> (\<forall>j < i. \<not> scalableKind (resourcesOf cl ! j))" for i
  proof -
    from that have "find scalableKind (resourcesOf cl) = Some (resourcesOf cl ! i)"
      by (auto simp: find_Some_iff)
    then show ?thesis by (simp add: resolved_def)
  qed
  have fallback: "resolved cl scaler = scaler\<lparr>as_TargetWorkload := targetOf (workload cl)\<rparr>"
    if "children cl = [] \<and> \<not> scalableKind (workload cl)"
    using that by (simp add: resolved_def resourcesOf_def)
  from s(1) have a: "autoscalers cl (req_Namespace req, req_Name req) = Some scaler"
    by (simp add: Get_Inr_iff)
  have "autoscalers (run_cluster (Reconcile env cl req)) = autoscalers cl"
    and "run_scaler (Reconcile env cl req) = Some (resolved cl scaler)"
    and "run_effects (Reconcile env cl req)
           = map (\<lambda>res. Patched (adopted (ownerReferenceOf scaler) res)) (resourcesOf cl)
               @ [ScaleByKEDA (resolved cl scaler) (req_Namespace req)]"
    unfolding Reconcile_Completed [OF s] by simp_all
  with a first fallback show ?thesis by blast
qed

theorem Reconcile_target_kept_in_memory_witness:
  "run_ret (Reconcile ex_env (ex_cluster ex_web [ex_svc, ex_db]) ex_req)
     = Returned Result_zero None
   \<and> scalableKind (resourcesOf (ex_cluster ex_web [ex_svc, ex_db]) ! 1)
   \<and> \<not> scalableKind (resourcesOf (ex_cluster ex_web [ex_svc, ex_db]) ! 0)
   \<and> autoscalers (run_cluster (Reconcile ex_env (ex_cluster ex_web [ex_svc, ex_db]) ex_req))
        (''default'', ''web-scaler'') = Some ex_scaler
   \<and> run_scaler (Reconcile ex_env (ex_cluster ex_web [ex_svc, ex_db]) ex_req)
       = Some (ex_scaler\<lparr>as_TargetWorkload := targetOf ex_db\<rparr>)
   \<and> run_ret (Reconcile ex_env (ex_cluster (ex_resource ''CloneSet'' ''web'' []) []) ex_req)
       = Returned Result_zero None
   \<and> \<not> scalableKind (workload (ex_cluster (ex_resource ''CloneSet'' ''web'' []) []))
   \<and> autoscalers
        (run_cluster (Reconcile ex_env (ex_cluster (ex_resource ''CloneSet'' ''web'' []) []) ex_req))
        (''default'', ''web-scaler'') = Some ex_scaler
   \<and> run_scaler (Reconcile ex_env (ex_cluster (ex_resource ''CloneSet'' ''web'' []) []) ex_req)
       = Some (ex_scaler\<lparr>as_TargetWorkload := targetOf (ex_resource ''CloneSet'' ''web'' [])\<rparr>)
   \<and> run_effects (Reconcile ex_env (ex_cluster (ex_resource ''CloneSet'' ''web'' []) []) ex_req)
       = [Patched (adopted (ownerReferenceOf ex_scaler) (ex_resource ''CloneSet'' ''web'' [])),
          ScaleByKEDA
            (ex_scaler\<lparr>as_TargetWorkload := targetOf (ex_resource ''CloneSet'' ''web'' [])\<rparr>)
            ''default'']"
proof -
  let ?cl = "ex_cluster ex_web [ex_svc, ex_db]"
  let ?w = "ex_resource ''CloneSet'' ''web'' []"
  let ?cl2 = "ex_cluster ?w []"
  have h: "run_ret (Reconcile ex_env ?cl ex_req) = Returned Result_zero None"
    by (simp add: Reconcile_unfold ex_defs)
  have s: "scalableKind (resourcesOf ?cl ! 1)"
    by (simp add: resourcesOf_def scalableKind_def ex_defs)
  have n: "\<not> scalableKind (resourcesOf ?cl ! 0)"
    by (simp add: resourcesOf_def scalableKind_def ex_defs)
  have i: "Suc 0 < length (resourcesOf ?cl) \<and> scalableKind (resourcesOf ?cl ! Suc 0)
          \<and> (\<forall>j < Suc 0. \<not> scalableKind (resourcesOf ?cl ! j))"
    using s n by (simp add: resourcesOf_def ex_cluster_def)
  have k: "autoscalers ?cl (''default'', ''web-scaler'') = Some ex_scaler"
    by (simp add: ex_cluster_def)
  have r: "resourcesOf ?cl ! Suc 0 = ex_db"
    by (simp add: resourcesOf_def ex_cluster_def)
  from Reconcile_target_kept_in_memory [OF h] obtain sc where
    1: "autoscalers (run_cluster (Reconcile ex_env ?cl ex_req)) = autoscalers ?cl"
      "autoscalers ?cl (req_Namespace ex_req, req_Name ex_req) = Some sc"
      "run_scaler (Reconcile ex_env ?cl ex_req) = Some (resolved ?cl sc)"
      "\<forall>i. i < length (resourcesOf ?cl) \<and> scalableKind (resourcesOf ?cl ! i)
            \<and> (\<forall>j < i. \<not> scalableKind (resourcesOf ?cl ! j)) \<longrightarrow>
          resolved ?cl sc = sc\<lparr>as_TargetWorkload := targetOf (resourcesOf ?cl ! i)\<rparr>"
    by blast
  from 1(2) k have sc: "sc = ex_scaler" by (simp add: ex_req_def)
  from 1(4) i have "resolved ?cl sc = sc\<lparr>as_TargetWorkload := targetOf (resourcesOf ?cl ! Suc 0)\<rparr>"
    by blast
  with 1(1) 1(3) k sc r have A:
    "autoscalers (run_cluster (Reconcile ex_env ?cl ex_req)) (''default'', ''web-scaler'')
       = Some ex_scaler"
    "run_scaler (Reconcile ex_env ?cl ex_req) = Some (ex_scaler\<lparr>as_TargetWorkload := targetOf ex_db\<rparr>)"
    by simp_all
  have h2: "run_ret (Reconcile ex_env ?cl2 ex_req) = Returned Result_zero None"
    by (simp add: Reconcile_unfold ex_defs)
  have n2: "\<not> scalableKind (workload ?cl2)"
    by (simp add: scalableKind_def ex_defs)
  have c2: "children ?cl2 = [] \<and> \<not> scalableKind (workload ?cl2)"
    using n2 by (simp add: ex_cluster_def)
  have k2: "autoscalers ?cl2 (''default'', ''web-scaler'') = Some ex_scaler"
    by (simp add: ex_cluster_def)
  have w2: "workload ?cl2 = ?w" "resourcesOf ?cl2 = [?w]"
    by (simp_all add: resourcesOf_def ex_cluster_def)
  from Reconcile_target_kept_in_memory [OF h2] obtain sc2 where
    2: "autoscalers (run_cluster (Reconcile ex_env ?cl2 ex_req)) = autoscalers ?cl2"
      "autoscalers ?cl2 (req_Namespace ex_req, req_Name ex_req) = Some sc2"
      "run_scaler (Reconcile ex_env ?cl2 ex_req) = Some (resolved ?cl2 sc2)"
      "run_effects (Reconcile ex_env ?cl2 ex_req)
         = map (\<lambda>res. Patched (adopted (ownerReferenceOf sc2) res)) (resourcesOf ?cl2)
             @ [ScaleByKEDA (resolved ?cl2 sc2) (req_Namespace ex_req)]"
      "children ?cl2 = [] \<and> \<not> scalableKind (workload ?cl2) \<longrightarrow>
          resolved ?cl2 sc2 = sc2\<lparr>as_TargetWorkload := targetOf (workload ?cl2)\<rparr>"
    by blast
  from 2(2) k2 have sc2: "sc2 = ex_scaler" by (simp add: ex_req_def)
  from 2(5) c2 have "resolved ?cl2 sc2 = sc2\<lparr>as_TargetWorkload := targetOf (workload ?cl2)\<rparr>"
    by blast
  with 2(1) 2(3) 2(4) k2 sc2 have B:
    "autoscalers (run_cluster (Reconcile ex_env ?cl2 ex_req)) (''default'', ''web-scaler'')
       = Some ex_scaler"
    "run_scaler (Reconcile ex_env ?cl2 ex_req) = Some (ex_scaler\<lparr>as_TargetWorkload := targetOf ?w\<rparr>)"
    "run_effects (Reconcile ex_env ?cl2 ex_req)
       = [Patched (adopted (ownerReferenceOf ex_scaler) ?w),
          ScaleByKEDA (ex_scaler\<lparr>as_TargetWorkload := targetOf ?w\<rparr>) ''default'']"
    by (simp_all add: w2 ex_req_def)
  from h s n A h2 n2 B show ?thesis by blast
qed

text \<open>
  C3 as stated fails: after a successful reconcile whose winner is the StatefulSet
  \<open>db\<close>, the stored trait's target workload is not that of \<open>db\<close>.
\<close>

theorem Reconcile_target_not_stored:
  "run_ret (Reconcile ex_env (ex_cluster ex_web [ex_svc, ex_db]) ex_req)
     = Returned Result_zero None
   \<and> find scalableKind (resourcesOf (ex_cluster ex_web [ex_svc, ex_db])) = Some ex_db
   \<and> map_option as_TargetWorkload
        (autoscalers (run_cluster (Reconcile ex_env (ex_cluster ex_web [ex_svc, ex_db]) ex_req))
           (''default'', ''web-scaler''))
       \<noteq> Some (targetOf ex_db)"
  by (simp add: Reconcile_unfold ex_defs)

text \<open>
  C5. After a successful reconcile the target workload of the trait in memory, which is
  the trait handed to \<^verbatim>\<open>scaleByKEDA\<close>, is the (apiVersion, kind, name) of the first
  resource in loop order (children as discovered, then the workload) whose kind is
  \<^verbatim>\<open>Deployment\<close> or \<^verbatim>\<open>StatefulSet\<close>; a later resource of such a kind does not replace
  it, and several candidates do not make the reconcile fail.
\<close>

theorem Reconcile_target_first_match:
  assumes "run_ret (Reconcile env cl req) = Returned Result_zero None"
      and "i < length (resourcesOf cl)"
      and "scalableKind (resourcesOf cl ! i)"
      and "\<forall>j < i. \<not> scalableKind (resourcesOf cl ! j)"
  shows "map_option as_TargetWorkload (run_scaler (Reconcile env cl req))
           = Some \<lparr>tw_APIVersion = res_APIVersion (resourcesOf cl ! i),
                   tw_Kind = res_Kind (resourcesOf cl ! i),
                   tw_Name = res_Name (resourcesOf cl ! i)\<rparr>
         \<and> (\<exists>scaler. last (run_effects (Reconcile env cl req))
               = ScaleByKEDA scaler (req_Namespace req)
              \<and> run_scaler (Reconcile env cl req) = Some scaler)"
proof -
  from assms(1) obtain scaler p where s: "Get env cl req = Inr scaler" "locateParent env = Inr p"
      "fetchWorkloadError env = None" "fetchChildResourcesError env = None"
      "\<forall>i < length (resourcesOf cl). patchError env i = None"
      "list_all flagsSet (resourcesOf cl)"
    by (rule Reconcile_success_cases)
  from assms(2-4) have "find scalableKind (resourcesOf cl) = Some (resourcesOf cl ! i)"
    by (auto simp: find_Some_iff)
  then have "as_TargetWorkload (resolved cl scaler) = targetOf (resourcesOf cl ! i)"
    by (simp add: resolved_def)
  then show ?thesis
    unfolding Reconcile_Completed [OF s] by (simp add: targetOf_def)
qed

theorem Reconcile_target_first_match_witness:
  "run_ret (Reconcile ex_env (ex_cluster ex_web [ex_svc, ex_db]) ex_req)
     = Returned Result_zero None
   \<and> (1::nat) < length (resourcesOf (ex_cluster ex_web [ex_svc, ex_db]))
   \<and> scalableKind (resourcesOf (ex_cluster ex_web [ex_svc, ex_db]) ! 1)
   \<and> \<not> scalableKind (resourcesOf (ex_cluster ex_web [ex_svc, ex_db]) ! 0)
   \<and> scalableKind (resourcesOf (ex_cluster ex_web [ex_svc, ex_db]) ! 2)
   \<and> map_option as_TargetWorkload
        (run_scaler (Reconcile ex_env (ex_cluster ex_web [ex_svc, ex_db]) ex_req))
       = Some \<lparr>tw_APIVersion = ''apps/v1'', tw_Kind = ''StatefulSet'', tw_Name = ''db''\<rparr>"
proof -
  have h: "run_ret (Reconcile ex_env (ex_cluster ex_web [ex_svc, ex_db]) ex_req)
             = Returned Result_zero None"
    by (simp add: Reconcile_unfold ex_defs)
  have l: "(1::nat) < length (resourcesOf (ex_cluster ex_web [ex_svc, ex_db]))"
    by (simp add: resourcesOf_def ex_cluster_def)
  have s: "scalableKind (resourcesOf (ex_cluster ex_web [ex_svc, ex_db]) ! 1)"
    by (simp add: resourcesOf_def scalableKind_def ex_defs)
  have n: "\<forall>j < (1::nat). \<not> scalableKind (resourcesOf (ex_cluster ex_web [ex_svc, ex_db]) ! j)"
    by (simp add: resourcesOf_def scalableKind_def ex_defs)
  have s2: "scalableKind (resourcesOf (ex_cluster ex_web [ex_svc, ex_db]) ! 2)"
    by (simp add: resourcesOf_def scalableKind_def ex_defs)
  from Reconcile_target_first_match [OF h l s n] h l s n s2 show ?thesis
    by (simp add: resourcesOf_def ex_defs)
qed

text \<open>
  C6. The claim: when no discovered resource has a scalable kind, the workload becomes
  the target. The comment at line 173 says the same, but the guard at line 174 is
  \<^verbatim>\<open>len(resources) == 1\<close>: with a child of kind \<^verbatim>\<open>Service\<close> and a workload of kind
  \<^verbatim>\<open>CloneSet\<close> the reconcile succeeds, no resource is scalable, and the target stays
  as the stored trait had it (unset), not the workload.
\<close>

theorem Reconcile_no_scalable_child_target_unset:
  "run_ret (Reconcile ex_env
      (ex_cluster (ex_resource ''CloneSet'' ''web'' [])
         [ex_resource ''Service'' ''web-svc'' []]) ex_req) = Returned Result_zero None
   \<and> \<not> list_ex scalableKind
        (resourcesOf (ex_cluster (ex_resource ''CloneSet'' ''web'' [])
           [ex_resource ''Service'' ''web-svc'' []]))
   \<and> map_option as_TargetWorkload
       (run_scaler (Reconcile ex_env
          (ex_cluster (ex_resource ''CloneSet'' ''web'' [])
             [ex_resource ''Service'' ''web-svc'' []]) ex_req))
       = Some \<lparr>tw_APIVersion = [], tw_Kind = [], tw_Name = []\<rparr>
   \<and> targetOf (ex_resource ''CloneSet'' ''web'' [])
       \<noteq> \<lparr>tw_APIVersion = [], tw_Kind = [], tw_Name = []\<rparr>"
  by (simp add: Reconcile_unfold ex_defs)

subsection \<open>Failure paths\<close>

text \<open>
  C4, as amended. Once the trait is fetched, the failure paths up to the ownership
  patches report before they return: a failed parent lookup, a failed workload fetch, a
  failed child discovery and a failed ownership patch each end with
  \<^verbatim>\<open>util.PatchCondition\<close> setting a \<^verbatim>\<open>ReconcileError\<close> condition on the trait, the
  workload fetch and the child discovery after a warning event. A failed fetch of the
  trait itself returns without any report.
\<close>

theorem Reconcile_failure_paths_report:
  "(Get env cl req = Inl err \<longrightarrow>
      run_ret (Reconcile env cl req) = Returned ReconcileWaitResult (IgnoreNotFound err)
      \<and> run_effects (Reconcile env cl req) = [])
   \<and> (Get env cl req = Inr scaler \<and> locateParent env = Inl err \<longrightarrow>
      run_effects (Reconcile env cl req) =
        [ConditionPatch (ReconcileError (Errorf ErrLocateAppConfig))])
   \<and> (Get env cl req = Inr scaler \<and> locateParent env = Inr p
        \<and> fetchWorkloadError env = Some err \<longrightarrow>
      run_effects (Reconcile env cl req) =
        [Event TheTrait ErrLocatingWorkload err,
         ConditionPatch (ReconcileError (Wrap err ErrLocatingWorkload))])
   \<and> (Get env cl req = Inr scaler \<and> locateParent env = Inr p
        \<and> fetchWorkloadError env = None \<and> fetchChildResourcesError env = Some err \<longrightarrow>
      run_effects (Reconcile env cl req) =
        [Event (case p of None \<Rightarrow> TheTrait | Some n \<Rightarrow> ParentAppConfig n)
           ErrFetchChildResources err,
         ConditionPatch (ReconcileError (Errorf ErrFetchChildResources))])
   \<and> (Get env cl req = Inr scaler \<and> locateParent env = Inr p
        \<and> fetchWorkloadError env = None \<and> fetchChildResourcesError env = None
        \<and> k < length (resourcesOf cl) \<and> patchError env k = Some err
        \<and> (\<forall>j < k. patchError env j = None)
        \<and> list_all flagsSet (take (Suc k) (resourcesOf cl)) \<longrightarrow>
      last (run_effects (Reconcile env cl req)) =
        ConditionPatch (ReconcileError
          (Wrap err (Text ''Failed to set ownerReference for child resource''))))"
proof (intro conjI impI)
  assume "Get env cl req = Inl err"
  then show "run_ret (Reconcile env cl req) = Returned ReconcileWaitResult (IgnoreNotFound err)"
    and "run_effects (Reconcile env cl req) = []"
    by (simp_all add: Reconcile_def)
next
  assume "Get env cl req = Inr scaler \<and> locateParent env = Inl err"
  then show "run_effects (Reconcile env cl req) =
        [ConditionPatch (ReconcileError (Errorf ErrLocateAppConfig))]"
    by (simp add: Reconcile_def)
next
  assume "Get env cl req = Inr scaler \<and> locateParent env = Inr p
        \<and> fetchWorkloadError env = Some err"
  then show "run_effects (Reconcile env cl req) =
        [Event TheTrait ErrLocatingWorkload err,
         ConditionPatch (ReconcileError (Wrap err ErrLocatingWorkload))]"
    by (simp add: Reconcile_def)
next
  assume "Get env cl req = Inr scaler \<and> locateParent env = Inr p
        \<and> fetchWorkloadError env = None \<and> fetchChildResourcesError env = Some err"
  then show "run_effects (Reconcile env cl req) =
        [Event (case p of None \<Rightarrow> TheTrait | Some n \<Rightarrow> ParentAppConfig n)
           ErrFetchChildResources err,
         ConditionPatch (ReconcileError (Errorf ErrFetchChildResources))]"
    by (simp add: Reconcile_def)
next
  assume a: "Get env cl req = Inr scaler \<and> locateParent env = Inr p
        \<and> fetchWorkloadError env = None \<and> fetchChildResourcesError env = None
        \<and> k < length (resourcesOf cl) \<and> patchError env k = Some err
        \<and> (\<forall>j < k. patchError env j = None)
        \<and> list_all flagsSet (take (Suc k) (resourcesOf cl))"
  then have "run_effects (Reconcile env cl req) =
           map (\<lambda>res. Patched (adopted (ownerReferenceOf scaler) res)) (take k (resourcesOf cl))
             @ [PatchRejected (adopted (ownerReferenceOf scaler) (resourcesOf cl ! k)),
                ConditionPatch (ReconcileError
                  (Wrap err (Text ''Failed to set ownerReference for child resource'')))]"
    by (intro Reconcile_PatchFailed(2) [of env cl req scaler p k err]) simp_all
  then show "last (run_effects (Reconcile env cl req)) =
        ConditionPatch (ReconcileError
          (Wrap err (Text ''Failed to set ownerReference for child resource'')))"
    by simp
qed

theorem Reconcile_failure_paths_report_witness:
  "run_effects (Reconcile (ex_env\<lparr>getError := Some ''connection refused''\<rparr>)
      (ex_cluster ex_web [ex_svc]) ex_req) = []
   \<and> run_effects (Reconcile (ex_env\<lparr>locateParent := Inl (Failure ''no owner'')\<rparr>)
      (ex_cluster ex_web [ex_svc]) ex_req)
       = [ConditionPatch (ReconcileError (Errorf ErrLocateAppConfig))]
   \<and> run_effects (Reconcile (ex_env\<lparr>fetchWorkloadError := Some NotFound\<rparr>)
      (ex_cluster ex_web [ex_svc]) ex_req)
       = [Event TheTrait ErrLocatingWorkload NotFound,
          ConditionPatch (ReconcileError (Wrap NotFound ErrLocatingWorkload))]
   \<and> run_effects (Reconcile
        (ex_env\<lparr>locateParent := Inr (Some ''app''),
                fetchChildResourcesError := Some (Failure ''list failed'')\<rparr>)
      (ex_cluster ex_web [ex_svc]) ex_req)
       = [Event (ParentAppConfig ''app'') ErrFetchChildResources (Failure ''list failed''),
          ConditionPatch (ReconcileError (Errorf ErrFetchChildResources))]
   \<and> last (run_effects (Reconcile
        (ex_env\<lparr>patchError := (\<lambda>i. if i = 1 then Some (Failure ''conflict'') else None)\<rparr>)
      (ex_cluster ex_web [ex_svc]) ex_req))
       = ConditionPatch (ReconcileError
           (Wrap (Failure ''conflict'')
              (Text ''Failed to set ownerReference for child resource'')))"
proof -
  let ?cl = "ex_cluster ex_web [ex_svc]"
  note T = Reconcile_failure_paths_report [where cl = ?cl and req = ex_req]
  have 1: "run_effects (Reconcile (ex_env\<lparr>getError := Some ''connection refused''\<rparr>) ?cl ex_req) = []"
    using T [where env = "ex_env\<lparr>getError := Some ''connection refused''\<rparr>"
               and err = "Failure ''connection refused''"]
    by (simp add: Get_def ex_env_def)
  have 2: "run_effects (Reconcile (ex_env\<lparr>locateParent := Inl (Failure ''no owner'')\<rparr>) ?cl ex_req)
       = [ConditionPatch (ReconcileError (Errorf ErrLocateAppConfig))]"
    using T [where env = "ex_env\<lparr>locateParent := Inl (Failure ''no owner'')\<rparr>"
               and err = "Failure ''no owner''" and scaler = ex_scaler]
    by (simp add: Get_def ex_env_def ex_cluster_def ex_req_def)
  have 3: "run_effects (Reconcile (ex_env\<lparr>fetchWorkloadError := Some NotFound\<rparr>) ?cl ex_req)
       = [Event TheTrait ErrLocatingWorkload NotFound,
          ConditionPatch (ReconcileError (Wrap NotFound ErrLocatingWorkload))]"
    using T [where env = "ex_env\<lparr>fetchWorkloadError := Some NotFound\<rparr>"
               and err = NotFound and scaler = ex_scaler and p = None]
    by (simp add: Get_def ex_env_def ex_cluster_def ex_req_def)
  have 4: "run_effects (Reconcile
        (ex_env\<lparr>locateParent := Inr (Some ''app''),
                fetchChildResourcesError := Some (Failure ''list failed'')\<rparr>) ?cl ex_req)
       = [Event (ParentAppConfig ''app'') ErrFetchChildResources (Failure ''list failed''),
          ConditionPatch (ReconcileError (Errorf ErrFetchChildResources))]"
    using T [where env = "ex_env\<lparr>locateParent := Inr (Some ''app''),
                fetchChildResourcesError := Some (Failure ''list failed'')\<rparr>"
               and err = "Failure ''list failed''" and scaler = ex_scaler and p = "Some ''app''"]
    by (simp add: Get_def ex_env_def ex_cluster_def ex_req_def)
  have f: "list_all flagsSet (take (Suc 1) (resourcesOf ?cl))"
    by (auto simp: resourcesOf_def flagsSet_def ex_defs)
  have 5: "last (run_effects (Reconcile
        (ex_env\<lparr>patchError := (\<lambda>i. if i = 1 then Some (Failure ''conflict'') else None)\<rparr>) ?cl ex_req))
       = ConditionPatch (ReconcileError
           (Wrap (Failure ''conflict'')
              (Text ''Failed to set ownerReference for child resource'')))"
    using T [where env = "ex_env\<lparr>patchError := (\<lambda>i. if i = 1 then Some (Failure ''conflict'') else None)\<rparr>"
               and err = "Failure ''conflict''" and scaler = ex_scaler and p = None and k = 1] f
    by (simp add: Get_def ex_env_def ex_cluster_def ex_req_def resourcesOf_def)
  from 1 2 3 4 5 show ?thesis by blast
qed

text \<open>
  C4 as stated fails: when \<^verbatim>\<open>r.Get\<close> fails with an error other than not-found,
  \<^verbatim>\<open>Reconcile\<close> returns that error and has made no call to the reporter.
\<close>

theorem Reconcile_get_failure_unreported:
  "run_ret (Reconcile (ex_env\<lparr>getError := Some ''connection refused''\<rparr>)
       (ex_cluster ex_web [ex_svc]) ex_req)
     = Returned ReconcileWaitResult (Some (Failure ''connection refused''))
   \<and> run_effects (Reconcile (ex_env\<lparr>getError := Some ''connection refused''\<rparr>)
       (ex_cluster ex_web [ex_svc]) ex_req) = []"
  by (simp add: Reconcile_def Get_def IgnoreNotFound_def ex_env_def)

text \<open>
  C8. When the \<open>k\<close>-th ownership patch is the first call to fail (and no controller flag
  up to that resource is \<^verbatim>\<open>nil\<close>), \<^verbatim>\<open>Reconcile\<close> stops the loop: the resources before
  the \<open>k\<close>-th are patched and stay patched, the \<open>k\<close>-th and all later ones are as they
  were, the last call is \<^verbatim>\<open>util.PatchCondition\<close> with the wrapped patch error (and
  when its status patch succeeds the stored trait carries that condition), and the
  result is the 30 second requeue.
\<close>

theorem Reconcile_patch_failure_aborts:
  assumes "Get env cl req = Inr scaler" and "locateParent env = Inr p"
      and "fetchWorkloadError env = None" and "fetchChildResourcesError env = None"
      and "k < length (resourcesOf cl)" and "patchError env k = Some e"
      and "\<forall>j < k. patchError env j = None"
      and "list_all flagsSet (take (Suc k) (resourcesOf cl))"
  shows "run_ret (Reconcile env cl req) =
           Returned \<lparr>Requeue = False, RequeueAfter = 30 * Second\<rparr>
             (case statusPatchError env of
                None \<Rightarrow> None | Some e' \<Rightarrow> Some (Wrap e' ErrUpdateStatus))
         \<and> run_effects (Reconcile env cl req) =
             map (\<lambda>res. Patched (adopted (ownerReferenceOf scaler) res))
               (take k (resourcesOf cl))
             @ [PatchRejected (adopted (ownerReferenceOf scaler) (resourcesOf cl ! k)),
                ConditionPatch (ReconcileError
                  (Wrap e (Text ''Failed to set ownerReference for child resource'')))]
         \<and> resourcesOf (run_cluster (Reconcile env cl req)) =
             map (adopted (ownerReferenceOf scaler)) (take k (resourcesOf cl))
               @ drop k (resourcesOf cl)
         \<and> (statusPatchError env = None \<longrightarrow>
              (\<exists>stored. autoscalers (run_cluster (Reconcile env cl req))
                          (req_Namespace req, req_Name req) = Some stored
                 \<and> ReconcileError
                     (Wrap e (Text ''Failed to set ownerReference for child resource''))
                     \<in> set (as_Conditions stored)))"
  using Reconcile_PatchFailed [OF assms]
  by (auto simp: util_ReconcileWaitResult_def)

theorem Reconcile_patch_failure_aborts_witness:
  "Get (ex_env\<lparr>patchError := (\<lambda>i. if i = 1 then Some (Failure ''conflict'') else None)\<rparr>)
       (ex_cluster ex_web [ex_svc, ex_db]) ex_req = Inr ex_scaler
   \<and> (1::nat) < length (resourcesOf (ex_cluster ex_web [ex_svc, ex_db]))
   \<and> list_all flagsSet (take (Suc 1) (resourcesOf (ex_cluster ex_web [ex_svc, ex_db])))
   \<and> run_ret (Reconcile
        (ex_env\<lparr>patchError := (\<lambda>i. if i = 1 then Some (Failure ''conflict'') else None)\<rparr>)
        (ex_cluster ex_web [ex_svc, ex_db]) ex_req)
       = Returned \<lparr>Requeue = False, RequeueAfter = 30000000000\<rparr> None
   \<and> resourcesOf (run_cluster (Reconcile
        (ex_env\<lparr>patchError := (\<lambda>i. if i = 1 then Some (Failure ''conflict'') else None)\<rparr>)
        (ex_cluster ex_web [ex_svc, ex_db]) ex_req))
       = [adopted (ownerReferenceOf ex_scaler) ex_svc, ex_db, ex_web]
   \<and> run_effects (Reconcile
        (ex_env\<lparr>patchError := (\<lambda>i. if i = 1 then Some (Failure ''conflict'') else None)\<rparr>)
        (ex_cluster ex_web [ex_svc, ex_db]) ex_req)
       = [Patched (adopted (ownerReferenceOf ex_scaler) ex_svc),
          PatchRejected (adopted (ownerReferenceOf ex_scaler) ex_db),
          ConditionPatch (ReconcileError
            (Wrap (Failure ''conflict'')
               (Text ''Failed to set ownerReference for child resource'')))]"
proof -
  let ?env = "ex_env\<lparr>patchError := (\<lambda>i. if i = 1 then Some (Failure ''conflict'') else None)\<rparr>"
  let ?cl = "ex_cluster ex_web [ex_svc, ex_db]"
  have a: "Get ?env ?cl ex_req = Inr ex_scaler"
    by (simp add: Get_def ex_env_def ex_cluster_def ex_req_def)
  have b: "locateParent ?env = Inr None" "fetchWorkloadError ?env = None"
    "fetchChildResourcesError ?env = None" "statusPatchError ?env = None"
    by (simp_all add: ex_env_def)
  have c: "(1::nat) < length (resourcesOf ?cl)"
    by (simp add: resourcesOf_def ex_cluster_def)
  have d: "patchError ?env 1 = Some (Failure ''conflict'')" "\<forall>j < (1::nat). patchError ?env j = None"
    by (auto simp: ex_env_def)
  have f: "list_all flagsSet (take (Suc 1) (resourcesOf ?cl))"
    by (auto simp: resourcesOf_def flagsSet_def ex_defs)
  have r: "resourcesOf ?cl = [ex_svc, ex_db, ex_web]"
    by (simp add: resourcesOf_def ex_cluster_def)
  from Reconcile_patch_failure_aborts [OF a b(1) b(2) b(3) c d(1) d(2) f] a c f b(4)
  show ?thesis
    by (simp add: r Second_def)
qed

text \<open>
  C9. When \<^verbatim>\<open>r.Get\<close> finds no trait under the requested name, \<^verbatim>\<open>Reconcile\<close> returns
  \<^verbatim>\<open>ReconcileWaitResult\<close> with a \<^verbatim>\<open>nil\<close> error, makes no call with an outside effect
  (no condition, no event, no patch) and leaves every object as it was.
\<close>

theorem Reconcile_trait_not_found:
  assumes "getError env = None"
      and "autoscalers cl (req_Namespace req, req_Name req) = None"
  shows "Reconcile env cl req =
           \<lparr>run_ret = Returned ReconcileWaitResult None, run_effects = [],
            run_cluster = cl, run_scaler = None\<rparr>"
  using assms by (simp add: Reconcile_def Get_def IgnoreNotFound_def)

theorem Reconcile_trait_not_found_witness:
  "getError ex_env = None \<and>
   autoscalers (ex_cluster (ex_resource ''Deployment'' ''web'' []) [])
     (req_Namespace \<lparr>req_Namespace = ''default'', req_Name = ''gone''\<rparr>,
      req_Name \<lparr>req_Namespace = ''default'', req_Name = ''gone''\<rparr>) = None \<and>
   Reconcile ex_env (ex_cluster (ex_resource ''Deployment'' ''web'' []) [])
       \<lparr>req_Namespace = ''default'', req_Name = ''gone''\<rparr> =
     \<lparr>run_ret = Returned ReconcileWaitResult None, run_effects = [],
      run_cluster = ex_cluster (ex_resource ''Deployment'' ''web'' []) [], run_scaler = None\<rparr>"
proof -
  have a: "getError ex_env = None" by (simp add: ex_env_def)
  have b: "autoscalers (ex_cluster (ex_resource ''Deployment'' ''web'' []) [])
     (req_Namespace \<lparr>req_Namespace = ''default'', req_Name = ''gone''\<rparr>,
      req_Name \<lparr>req_Namespace = ''default'', req_Name = ''gone''\<rparr>) = None"
    by (simp add: ex_cluster_def)
  from Reconcile_trait_not_found [OF a b] a b show ?thesis by simp
qed

text \<open>
  C10. The claim: \<^verbatim>\<open>Reconcile\<close> does not crash on any input resource, also one with an
  owner reference whose controller flag is \<^verbatim>\<open>nil\<close>. Line 151 dereferences the flag
  without a check: on a workload with such a reference the invocation panics.
\<close>

theorem Reconcile_nil_controller_panics:
  "run_ret (Reconcile ex_env
      (ex_cluster (ex_resource ''Deployment'' ''web'' [ex_ref ''app'' None]) []) ex_req)
     = Panicked"
  by (simp add: Reconcile_unfold ex_defs)

subsection \<open>Cron triggers\<close>

text \<open>
  C7. Against the checks as the specification describes them: a cron trigger has no
  warning exactly when \<open>startAt\<close>, \<open>duration\<close> and \<open>replicas\<close> are present, \<open>startAt\<close>
  reads as \<^verbatim>\<open>HH:MM\<close>, \<open>duration\<close> reads as a count of hours, and the start hour plus
  the duration is below 24. Each violated check yields its warning; \<open>startAt = 12:01\<close>
  with \<open>duration = 13\<close> yields the warning whose text is the constant
  \<^verbatim>\<open>SpecWarningSumOfStartAndDurationMoreThan24Hour\<close>. A trigger with a warning is not
  among the delegated triggers, and with a synchronizer that fails only on a backend
  write error the reconcile of its trait still succeeds.
\<close>

theorem validateCron_checks:
  "(validateCron t = [] \<longleftrightarrow>
     (\<exists>s d n h m dh. tr_StartAt t = Some s \<and> tr_Duration t = Some d \<and> tr_Replicas t = Some n
        \<and> parseStartAt s = Some (h, m) \<and> parseDuration d = Some dh \<and> h + dh < 24))
   \<and> (tr_StartAt t = None \<longrightarrow> SpecWarningStartAtTimeRequired \<in> set (validateCron t))
   \<and> (tr_StartAt t = Some s \<and> parseStartAt s = None \<longrightarrow>
        SpecWarningStartAtTimeFormat \<in> set (validateCron t))
   \<and> (tr_Duration t = None \<longrightarrow> SpecWarningDurationTimeRequired \<in> set (validateCron t))
   \<and> (tr_Duration t = Some d \<and> parseDuration d = None \<longrightarrow>
        SpecWarningDurationTimeNotInRightFormat \<in> set (validateCron t))
   \<and> (tr_Replicas t = None \<longrightarrow> SpecWarningReplicasRequired \<in> set (validateCron t))
   \<and> (tr_StartAt t = Some s \<and> tr_Duration t = Some d \<and> parseStartAt s = Some (h, m)
        \<and> parseDuration d = Some dh \<and> 24 \<le> h + dh \<longrightarrow>
        SpecWarningSumOfStartAndDurationMoreThan24Hour \<in> set (validateCron t))
   \<and> SpecWarningSumOfStartAndDurationMoreThan24Hour
        \<in> set (validateCron (ex_cron (Some ''12:01'') (Some ''13'') r))
   \<and> SpecWarningSumOfStartAndDurationMoreThan24Hour
        = ''the sum of the start hour and the duration hour has to be less than 24 hours.''
   \<and> (validateCron t \<noteq> [] \<longrightarrow> t \<notin> set (delegatedCronTriggers scaler))
   \<and> (Get env cl req = Inr scaler \<and> locateParent env = Inr p
        \<and> fetchWorkloadError env = None \<and> fetchChildResourcesError env = None
        \<and> (\<forall>i < length (resourcesOf cl). patchError env i = None)
        \<and> list_all flagsSet (resourcesOf cl)
        \<and> scaleByKEDA env = scaleByKEDA_spec None \<longrightarrow>
        run_ret (Reconcile env cl req) = Returned Result_zero None)"
proof (intro conjI impI)
  show "validateCron t = [] \<longleftrightarrow>
     (\<exists>s d n h m dh. tr_StartAt t = Some s \<and> tr_Duration t = Some d \<and> tr_Replicas t = Some n
        \<and> parseStartAt s = Some (h, m) \<and> parseDuration d = Some dh \<and> h + dh < 24)"
    by (rule validateCron_Nil_iff)
next
  assume "tr_StartAt t = None"
  then show "SpecWarningStartAtTimeRequired \<in> set (validateCron t)"
    by (simp add: validateCron_def)
next
  assume "tr_StartAt t = Some s \<and> parseStartAt s = None"
  then show "SpecWarningStartAtTimeFormat \<in> set (validateCron t)"
    by (simp add: validateCron_def)
next
  assume "tr_Duration t = None"
  then show "SpecWarningDurationTimeRequired \<in> set (validateCron t)"
    by (simp add: validateCron_def)
next
  assume "tr_Duration t = Some d \<and> parseDuration d = None"
  then show "SpecWarningDurationTimeNotInRightFormat \<in> set (validateCron t)"
    by (simp add: validateCron_def)
next
  assume "tr_Replicas t = None"
  then show "SpecWarningReplicasRequired \<in> set (validateCron t)"
    by (simp add: validateCron_def)
next
  assume "tr_StartAt t = Some s \<and> tr_Duration t = Some d \<and> parseStartAt s = Some (h, m)
        \<and> parseDuration d = Some dh \<and> 24 \<le> h + dh"
  then show "SpecWarningSumOfStartAndDurationMoreThan24Hour \<in> set (validateCron t)"
    by (simp add: validateCron_def)
next
  show "SpecWarningSumOfStartAndDurationMoreThan24Hour
        \<in> set (validateCron (ex_cron (Some ''12:01'') (Some ''13'') r))"
    by (simp add: validateCron_def ex_cron_def parse_samples)
next
  show "SpecWarningSumOfStartAndDurationMoreThan24Hour
        = ''the sum of the start hour and the duration hour has to be less than 24 hours.''"
    by (simp add: SpecWarningSumOfStartAndDurationMoreThan24Hour_def)
next
  assume "validateCron t \<noteq> []"
  then show "t \<notin> set (delegatedCronTriggers scaler)"
    by (simp add: delegatedCronTriggers_def)
next
  assume a: "Get env cl req = Inr scaler \<and> locateParent env = Inr p
        \<and> fetchWorkloadError env = None \<and> fetchChildResourcesError env = None
        \<and> (\<forall>i < length (resourcesOf cl). patchError env i = None)
        \<and> list_all flagsSet (resourcesOf cl)
        \<and> scaleByKEDA env = scaleByKEDA_spec None"
  then have "Reconcile env cl req =
     \<lparr>run_ret =
        (case scaleByKEDA env (resolved cl scaler) (req_Namespace req) of
           Some err \<Rightarrow> Returned ReconcileWaitResult (Some err)
         | None \<Rightarrow> Returned Result_zero None),
      run_effects =
        map (\<lambda>res. Patched (adopted (ownerReferenceOf scaler) res)) (resourcesOf cl)
          @ [ScaleByKEDA (resolved cl scaler) (req_Namespace req)],
      run_cluster =
        cl\<lparr>workload := adopted (ownerReferenceOf scaler) (workload cl),
           children := map (adopted (ownerReferenceOf scaler)) (children cl)\<rparr>,
      run_scaler = Some (resolved cl scaler)\<rparr>"
    by (intro Reconcile_Completed [of env cl req scaler p]) simp_all
  with a show "run_ret (Reconcile env cl req) = Returned Result_zero None"
    by (simp add: scaleByKEDA_spec_def)
qed

theorem validateCron_checks_witness:
  "validateCron (ex_cron (Some ''09:00'') (Some ''2'') (Some 5)) = []
   \<and> SpecWarningStartAtTimeRequired \<in> set (validateCron (ex_cron None None None))
   \<and> SpecWarningDurationTimeRequired \<in> set (validateCron (ex_cron None None None))
   \<and> SpecWarningReplicasRequired \<in> set (validateCron (ex_cron None None None))
   \<and> SpecWarningStartAtTimeFormat
       \<in> set (validateCron (ex_cron (Some ''noon'') (Some ''two'') (Some 5)))
   \<and> SpecWarningDurationTimeNotInRightFormat
       \<in> set (validateCron (ex_cron (Some ''noon'') (Some ''two'') (Some 5)))
   \<and> SpecWarningSumOfStartAndDurationMoreThan24Hour
       \<in> set (validateCron (ex_cron (Some ''12:01'') (Some ''13'') (Some 5)))
   \<and> ex_cron (Some ''12:01'') (Some ''13'') (Some 5) \<in> set (as_Triggers ex_cron_scaler)
   \<and> ex_cron (Some ''12:01'') (Some ''13'') (Some 5)
       \<notin> set (delegatedCronTriggers ex_cron_scaler)
   \<and> run_ret (Reconcile (ex_env\<lparr>scaleByKEDA := scaleByKEDA_spec None\<rparr>) ex_cron_cluster ex_req)
       = Returned Result_zero None"
proof -
  note T = validateCron_checks
  have 1: "validateCron (ex_cron (Some ''09:00'') (Some ''2'') (Some 5)) = []"
    using T [of "ex_cron (Some ''09:00'') (Some ''2'') (Some 5)"]
    by (simp add: ex_cron_def parse_samples)
  have 2: "SpecWarningStartAtTimeRequired \<in> set (validateCron (ex_cron None None None))"
    "SpecWarningDurationTimeRequired \<in> set (validateCron (ex_cron None None None))"
    "SpecWarningReplicasRequired \<in> set (validateCron (ex_cron None None None))"
    using T [of "ex_cron None None None"]
    by (simp_all add: ex_cron_def)
  have 3: "SpecWarningStartAtTimeFormat
       \<in> set (validateCron (ex_cron (Some ''noon'') (Some ''two'') (Some 5)))"
    "SpecWarningDurationTimeNotInRightFormat
       \<in> set (validateCron (ex_cron (Some ''noon'') (Some ''two'') (Some 5)))"
    using T [of "ex_cron (Some ''noon'') (Some ''two'') (Some 5)" "''noon''" "''two''"]
    by (simp_all add: ex_cron_def parse_samples)
  have 4: "SpecWarningSumOfStartAndDurationMoreThan24Hour
       \<in> set (validateCron (ex_cron (Some ''12:01'') (Some ''13'') (Some 5)))"
    using T [of "ex_cron (Some ''12:01'') (Some ''13'') (Some 5)" "''12:01''" "''13''" 12 1 13]
    by (simp add: ex_cron_def parse_samples)
  have 5: "ex_cron (Some ''12:01'') (Some ''13'') (Some 5) \<in> set (as_Triggers ex_cron_scaler)"
    by (simp add: ex_cron_scaler_def)
  from 4 have "validateCron (ex_cron (Some ''12:01'') (Some ''13'') (Some 5)) \<noteq> []"
    by auto
  then have 6: "ex_cron (Some ''12:01'') (Some ''13'') (Some 5)
       \<notin> set (delegatedCronTriggers ex_cron_scaler)"
    using T [of "ex_cron (Some ''12:01'') (Some ''13'') (Some 5)" _ _ _ _ _ _ ex_cron_scaler]
    by blast
  have f: "list_all flagsSet (resourcesOf ex_cron_cluster)"
    by (auto simp: resourcesOf_def flagsSet_def ex_cron_cluster_def ex_defs)
  have g: "Get (ex_env\<lparr>scaleByKEDA := scaleByKEDA_spec None\<rparr>) ex_cron_cluster ex_req
             = Inr ex_cron_scaler"
    by (simp add: Get_def ex_env_def ex_cron_cluster_def ex_req_def)
  have 7: "run_ret (Reconcile (ex_env\<lparr>scaleByKEDA := scaleByKEDA_spec None\<rparr>) ex_cron_cluster ex_req)
       = Returned Result_zero None"
    using T [where env = "ex_env\<lparr>scaleByKEDA := scaleByKEDA_spec None\<rparr>"
               and cl = ex_cron_cluster and req = ex_req and scaler = ex_cron_scaler
               and p = None] f g
    by (simp add: ex_env_def)
  from 1 2 3 4 5 6 7 show ?thesis by blast
qed

end
